theory Spec2Isabelle
  imports Main
begin

section \<open>Values, errors and Python conventions\<close>

text \<open>
  The package is a tree of Python objects (texts, elements, blocks, views, modal responses)
  with one operation, \<open>_resolve\<close>, that turns an object into a nested dictionary.
  Every class becomes a record whose fields are the attributes its constructor assigns; a
  constructor becomes a function returning the record, or the exception it raises as the
  left summand of a sum; \<open>_resolve\<close> becomes a function from the record to the dictionary
  or to the exception.

  A Python \<open>str\<close> is modelled as a \<open>string\<close> whose list elements stand for the
  characters that \<open>len\<close> counts. The code never inspects a character; it only measures
  lengths, tests emptiness and copies.
\<close>

datatype error =
    InvalidUsageError string
  | TypeError
  | AttributeError

datatype ElementType =
    TEXT | IMAGE | TIME_PICKER | DATE_PICKER | STATIC_SELECT | CHECKBOXES
  | MULTI_USERS_SELECT | BUTTON | CONFIRM | PLAIN_TEXT_INPUT

fun ElementType_value :: "ElementType \<Rightarrow> string" where
  "ElementType_value TEXT = ''text''"
| "ElementType_value IMAGE = ''image''"
| "ElementType_value TIME_PICKER = ''timepicker''"
| "ElementType_value DATE_PICKER = ''datepicker''"
| "ElementType_value STATIC_SELECT = ''static_select''"
| "ElementType_value CHECKBOXES = ''checkboxes''"
| "ElementType_value MULTI_USERS_SELECT = ''multi_users_select''"
| "ElementType_value BUTTON = ''button''"
| "ElementType_value CONFIRM = ''confirm''"
| "ElementType_value PLAIN_TEXT_INPUT = ''plain_text_input''"

datatype TextType = MARKDOWN | PLAINTEXT

fun TextType_value :: "TextType \<Rightarrow> string" where
  "TextType_value MARKDOWN = ''mrkdwn''"
| "TextType_value PLAINTEXT = ''plain_text''"

text \<open>
  \<open>BlockType.IMAGE\<close> is written \<open>IMAGE_BLOCK\<close>: a constructor name belongs to one
  datatype, and \<open>ElementType\<close> has \<open>IMAGE\<close> already.
\<close>

datatype BlockType =
    INPUT | SECTION | DIVIDER | IMAGE_BLOCK | ACTIONS | CONTEXT | FILE | HEADER

fun BlockType_value :: "BlockType \<Rightarrow> string" where
  "BlockType_value INPUT = ''input''"
| "BlockType_value SECTION = ''section''"
| "BlockType_value DIVIDER = ''divider''"
| "BlockType_value IMAGE_BLOCK = ''image''"
| "BlockType_value ACTIONS = ''actions''"
| "BlockType_value CONTEXT = ''context''"
| "BlockType_value FILE = ''file''"
| "BlockType_value HEADER = ''header''"

text \<open>
  Members of different \<open>Enum\<close> classes never compare equal in Python. Where the source
  compares an attribute with an enum member, the model compares tagged members, so that a
  comparison across classes is \<open>False\<close> as it is in the program.
\<close>

datatype enum_member =
    ElementType_member ElementType
  | TextType_member TextType
  | BlockType_member BlockType

subsection \<open>Truthiness\<close>

text \<open>
  The source tests optional attributes with \<open>if x:\<close>. \<open>None\<close>, the empty string,
  the empty list, \<open>0\<close> and \<open>False\<close> are falsy; an instance of one of the package's
  classes defines neither \<open>__bool__\<close> nor \<open>__len__\<close> and is always truthy.
\<close>

fun truthy_bool :: "bool option \<Rightarrow> bool" where
  "truthy_bool None = False"
| "truthy_bool (Some b) = b"

fun truthy_list :: "'a list option \<Rightarrow> bool" where
  "truthy_list None = False"
| "truthy_list (Some xs) = (xs \<noteq> [])"

fun truthy_obj :: "'a option \<Rightarrow> bool" where
  "truthy_obj None = False"
| "truthy_obj (Some x) = True"

text \<open>
  \<open>if x: ... x ...\<close> uses the value behind a truthy attribute. The functions below give
  that value when the test holds and \<open>None\<close> when it does not; an object is its own test.
\<close>

fun when_str :: "string option \<Rightarrow> string option" where
  "when_str None = None"
| "when_str (Some s) = (if s \<noteq> [] then Some s else None)"

fun when_int :: "int option \<Rightarrow> int option" where
  "when_int None = None"
| "when_int (Some n) = (if n \<noteq> 0 then Some n else None)"

fun when_bool :: "bool option \<Rightarrow> bool option" where
  "when_bool None = None"
| "when_bool (Some b) = (if b then Some b else None)"

fun when_list :: "'a list option \<Rightarrow> 'a list option" where
  "when_list None = None"
| "when_list (Some xs) = (if xs \<noteq> [] then Some xs else None)"

section \<open>Elements: the base class and Text\<close>

text \<open>
  \<open>Element.__init__\<close> stores the element kind; every element class extends it.
\<close>

record Element =
  Element_type :: ElementType

record Text = Element +
  Text_text_type :: TextType
  Text_text :: string
  Text_verbatim :: "bool option"
  Text_emoji :: "bool option"

text \<open>
  \<open>Text.__init__(text, type, emoji, verbatim)\<close>. The flags are declared \<open>bool\<close>;
  \<open>ImageBlock.__init__\<close> also passes the \<open>None\<close> it reads from another text, so they
  are optional booleans here.
\<close>

definition Text_init :: "string \<Rightarrow> TextType \<Rightarrow> bool option \<Rightarrow> bool option \<Rightarrow> Text" where
  "Text_init text ty emoji verbatim =
     (case ty of
        MARKDOWN \<Rightarrow>
          \<lparr>Element_type = TEXT, Text_text_type = ty, Text_text = text,
           Text_verbatim = verbatim, Text_emoji = None\<rparr>
      | PLAINTEXT \<Rightarrow>
          \<lparr>Element_type = TEXT, Text_text_type = ty, Text_text = text,
           Text_verbatim = None, Text_emoji = emoji\<rparr>)"

text \<open>
  A text input of \<open>Text.to_text\<close> is a raw string or an existing text object.
\<close>

datatype text_input = Str string | TextObj Text

text \<open>\<open>not text\<close>: only the empty string is falsy; a \<open>Text\<close> object is truthy.\<close>

fun text_input_falsy :: "text_input \<Rightarrow> bool" where
  "text_input_falsy (Str s) = (s = [])"
| "text_input_falsy (TextObj t) = False"

text \<open>\<open>len(text)\<close>: \<open>Text\<close> defines no \<open>__len__\<close>, so \<open>len\<close> of a text object raises.\<close>

fun len :: "text_input \<Rightarrow> error + int" where
  "len (Str s) = Inr (int (length s))"
| "len (TextObj t) = Inl TypeError"

text \<open>
  \<open>max_length and len(text) > max_length\<close>: the length is only taken when
  \<open>max_length\<close> is truthy (neither \<open>None\<close> nor \<open>0\<close>).
\<close>

definition exceeds :: "text_input \<Rightarrow> int option \<Rightarrow> error + bool" where
  "exceeds text max_length =
     (case when_int max_length of
        None \<Rightarrow> Inr False
      | Some limit \<Rightarrow>
          (case len text of
             Inl e \<Rightarrow> Inl e
           | Inr n \<Rightarrow> Inr (n > limit)))"

definition to_text :: "text_input option \<Rightarrow> bool \<Rightarrow> int option \<Rightarrow> error + Text option" where
  "to_text text force_plaintext max_length =
     (let ty = (if force_plaintext then PLAINTEXT else MARKDOWN) in
      case text of
        None \<Rightarrow> Inr None
      | Some inp \<Rightarrow>
          if text_input_falsy inp then Inr None
          else (case inp of
                  Str s \<Rightarrow>
                    (case exceeds inp max_length of
                       Inl e \<Rightarrow> Inl e
                     | Inr True \<Rightarrow> Inl (InvalidUsageError ''Text length exceeds Slack-imposed limit'')
                     | Inr False \<Rightarrow> Inr (Some (Text_init s ty (Some False) (Some False))))
                | TextObj t \<Rightarrow>
                    (case exceeds inp max_length of
                       Inl e \<Rightarrow> Inl e
                     | Inr True \<Rightarrow> Inl (InvalidUsageError ''Text length exceeds Slack-imposed limit'')
                     | Inr False \<Rightarrow>
                         Inr (Some (Text_init (Text_text t) ty (Some False) (Some False))))))"

section \<open>Resolved values\<close>

record Confirm = Element +
  Confirm_title :: "Text option"
  Confirm_text :: "Text option"
  Confirm_confirm :: "Text option"
  Confirm_deny :: "Text option"

text \<open>
  What \<open>_resolve\<close> returns: a \<open>dict\<close> with string keys, in insertion order (an
  association list), whose values are strings, booleans, integers, \<open>None\<close>, lists and
  dictionaries. Two resolvers store a \<open>Confirm\<close> object itself rather than its
  dictionary, so an unresolved object is a value too.
\<close>

datatype pyval =
    VNone
  | VBool bool
  | VInt int
  | VStr string
  | VList "pyval list"
  | VDict "(string \<times> pyval) list"
  | VObject Confirm

type_synonym dict = "(string \<times> pyval) list"

text \<open>\<open>d[k] = v\<close>: replaces the value of an existing key in place, else appends.\<close>

fun setitem :: "dict \<Rightarrow> string \<Rightarrow> pyval \<Rightarrow> dict" where
  "setitem [] k v = [(k, v)]"
| "setitem ((k', v') # d) k v = (if k' = k then (k, v) # d else (k', v') # setitem d k v)"

text \<open>\<open>k in d\<close> and \<open>d[k]\<close> on a resolved dictionary.\<close>

definition has_key :: "dict \<Rightarrow> string \<Rightarrow> bool" where
  "has_key d k = (k \<in> set (map fst d))"

definition getitem :: "dict \<Rightarrow> string \<Rightarrow> pyval option" where
  "getitem d k = map_of d k"

subsection \<open>Sequencing statements that may raise\<close>

definition and_then :: "error + 'a \<Rightarrow> ('a \<Rightarrow> error + 'b) \<Rightarrow> error + 'b" where
  "and_then m f = (case m of Inl e \<Rightarrow> Inl e | Inr x \<Rightarrow> f x)"

text \<open>
  A resolver is a sequence of statements on the dictionary under construction; the first
  statement that raises ends it.
\<close>

type_synonym stmt = "dict \<Rightarrow> error + dict"

text \<open>\<open>d[k] = v\<close> for a value that is at hand.\<close>

definition assign :: "string \<Rightarrow> pyval \<Rightarrow> stmt" where
  "assign k v d = Inr (setitem d k v)"

text \<open>\<open>d[k] = e\<close> for an expression \<open>e\<close> that may raise.\<close>

definition assign_from :: "string \<Rightarrow> error + pyval \<Rightarrow> stmt" where
  "assign_from k m d = and_then m (\<lambda>v. Inr (setitem d k v))"

text \<open>\<open>raise e\<close>\<close>

definition raise :: "error \<Rightarrow> stmt" where
  "raise e d = Inl e"

text \<open>\<open>if c: stmt\<close> on a condition that is a boolean.\<close>

definition if_then :: "bool \<Rightarrow> stmt \<Rightarrow> stmt" where
  "if_then c s d = (if c then s d else Inr d)"

text \<open>
  \<open>if x: stmt else: stmt'\<close> and \<open>if x: stmt\<close> on an attribute \<open>x\<close>, given as the
  value behind \<open>x\<close> when \<open>x\<close> is truthy; \<open>stmt\<close> may use that value.
\<close>

definition if_else :: "'a option \<Rightarrow> ('a \<Rightarrow> stmt) \<Rightarrow> stmt \<Rightarrow> stmt" where
  "if_else x s s' d = (case x of Some v \<Rightarrow> s v d | None \<Rightarrow> s' d)"

definition if_truthy :: "'a option \<Rightarrow> ('a \<Rightarrow> stmt) \<Rightarrow> stmt" where
  "if_truthy x s d = (case x of Some v \<Rightarrow> s v d | None \<Rightarrow> Inr d)"

fun run :: "stmt list \<Rightarrow> stmt" where
  "run [] d = Inr d"
| "run (s # ss) d = and_then (s d) (run ss)"

text \<open>\<open>[x._resolve() for x in xs]\<close>, left to right.\<close>

fun resolve_each :: "('a \<Rightarrow> error + dict) \<Rightarrow> 'a list \<Rightarrow> error + pyval list" where
  "resolve_each f [] = Inr []"
| "resolve_each f (x # xs) =
     and_then (f x) (\<lambda>d. and_then (resolve_each f xs) (\<lambda>ds. Inr (VDict d # ds)))"

definition as_list :: "error + pyval list \<Rightarrow> error + pyval" where
  "as_list m = and_then m (\<lambda>vs. Inr (VList vs))"

definition as_dict :: "error + dict \<Rightarrow> error + pyval" where
  "as_dict m = and_then m (\<lambda>d. Inr (VDict d))"

fun of_bool_option :: "bool option \<Rightarrow> pyval" where
  "of_bool_option None = VNone"
| "of_bool_option (Some b) = VBool b"

subsection \<open>Element._attributes and Text._resolve\<close>

definition Element_attributes :: "'a Element_scheme \<Rightarrow> dict" where
  "Element_attributes self = [(''type'', VStr (ElementType_value (Element_type self)))]"

text \<open>
  \<open>Text._resolve\<close>. The second branch reads \<open>self.type\<close>, the element kind stored by
  \<open>Element.__init__\<close>, and compares it with a member of \<open>TextType\<close>.
\<close>

definition Text_resolve :: "Text \<Rightarrow> dict" where
  "Text_resolve self =
     (let text = [(''type'', VStr (TextType_value (Text_text_type self))),
                  (''text'', VStr (Text_text self))]
      in if Text_text_type self = MARKDOWN
         then setitem text ''verbatim'' (of_bool_option (Text_verbatim self))
         else if ElementType_member (Element_type self) = TextType_member PLAINTEXT
                 \<and> truthy_bool (Text_emoji self)
         then setitem text ''emoji'' (of_bool_option (Text_emoji self))
         else text)"

text \<open>
  \<open>x._resolve()\<close> on an attribute that holds a text or \<open>None\<close>: \<open>None\<close> has no
  \<open>_resolve\<close>.
\<close>

fun resolve_text_attr :: "Text option \<Rightarrow> error + pyval" where
  "resolve_text_attr None = Inl AttributeError"
| "resolve_text_attr (Some t) = Inr (VDict (Text_resolve t))"

section \<open>Common elements\<close>

record Image = Element +
  Image_image_url :: string
  Image_alt_text :: string

definition Image_init :: "string \<Rightarrow> string \<Rightarrow> Image" where
  "Image_init image_url alt_text =
     \<lparr>Element_type = IMAGE, Image_image_url = image_url, Image_alt_text = alt_text\<rparr>"

definition Image_resolve :: "Image \<Rightarrow> error + dict" where
  "Image_resolve self =
     run [assign ''image_url'' (VStr (Image_image_url self)),
          assign ''alt_text'' (VStr (Image_alt_text self))]
       (Element_attributes self)"

definition Confirm_init ::
  "text_input \<Rightarrow> text_input \<Rightarrow> text_input \<Rightarrow> text_input \<Rightarrow> error + Confirm" where
  "Confirm_init title text confirm deny =
     and_then (to_text (Some title) True (Some 100)) (\<lambda>title'.
     and_then (to_text (Some text) False (Some 300)) (\<lambda>text'.
     and_then (to_text (Some confirm) True (Some 30)) (\<lambda>confirm'.
     and_then (to_text (Some deny) True (Some 30)) (\<lambda>deny'.
       Inr \<lparr>Element_type = CONFIRM, Confirm_title = title', Confirm_text = text',
            Confirm_confirm = confirm', Confirm_deny = deny'\<rparr>))))"

definition Confirm_resolve :: "Confirm \<Rightarrow> error + dict" where
  "Confirm_resolve self =
     run [assign_from ''title'' (resolve_text_attr (Confirm_title self)),
          assign_from ''text'' (resolve_text_attr (Confirm_text self)),
          assign_from ''confirm'' (resolve_text_attr (Confirm_confirm self)),
          assign_from ''deny'' (resolve_text_attr (Confirm_deny self))]
       []"

record Button = Element +
  Button_text :: "Text option"
  Button_action_id :: string
  Button_url :: "string option"
  Button_value :: "string option"
  Button_style :: "string option"
  Button_confirm :: "Confirm option"

definition Button_init ::
  "text_input \<Rightarrow> string \<Rightarrow> string option \<Rightarrow> string option \<Rightarrow> string option \<Rightarrow> Confirm option
     \<Rightarrow> error + Button" where
  "Button_init text action_id url val style confirm =
     and_then (to_text (Some text) True (Some 75)) (\<lambda>text'.
       Inr \<lparr>Element_type = BUTTON, Button_text = text', Button_action_id = action_id,
            Button_url = url, Button_value = val, Button_style = style,
            Button_confirm = confirm\<rparr>)"

definition Button_resolve :: "Button \<Rightarrow> error + dict" where
  "Button_resolve self =
     run [assign_from ''text'' (resolve_text_attr (Button_text self)),
          assign ''action_id'' (VStr (Button_action_id self)),
          if_truthy (when_str (Button_style self)) (\<lambda>style. assign ''style'' (VStr style)),
          if_truthy (when_str (Button_url self)) (\<lambda>url. assign ''url'' (VStr url)),
          if_truthy (when_str (Button_value self)) (\<lambda>val. assign ''value'' (VStr val)),
          if_truthy (Button_confirm self)
            (\<lambda>confirm. assign_from ''confirm'' (as_dict (Confirm_resolve confirm)))]
       (Element_attributes self)"

record DispatchActionConfig =
  DispatchActionConfig_on_character_entered :: bool
  DispatchActionConfig_on_enter_pressed :: bool

definition DispatchActionConfig_resolve :: "DispatchActionConfig \<Rightarrow> dict" where
  "DispatchActionConfig_resolve self =
     (let actions = [];
          actions = (if DispatchActionConfig_on_character_entered self
                     then actions @ [VStr ''on_character_entered''] else actions);
          actions = (if DispatchActionConfig_on_enter_pressed self
                     then actions @ [VStr ''on_enter_pressed''] else actions)
      in [(''trigger_actions_on'', VList actions)])"

record TextInput = Element +
  TextInput_action_id :: string
  TextInput_placeholder :: "Text option"
  TextInput_initial_value :: "string option"
  TextInput_multiline :: bool
  TextInput_min_length :: "int option"
  TextInput_max_length :: "int option"
  TextInput_dispatch_config :: "DispatchActionConfig option"

definition TextInput_init ::
  "string \<Rightarrow> text_input option \<Rightarrow> string option \<Rightarrow> bool \<Rightarrow> int option \<Rightarrow> int option
     \<Rightarrow> DispatchActionConfig option \<Rightarrow> error + TextInput" where
  "TextInput_init action_id placeholder initial_value multiline min_length max_length
       dispatch_config =
     and_then (to_text placeholder True (Some 150)) (\<lambda>placeholder'.
       Inr \<lparr>Element_type = PLAIN_TEXT_INPUT, TextInput_action_id = action_id,
            TextInput_placeholder = placeholder', TextInput_initial_value = initial_value,
            TextInput_multiline = multiline, TextInput_min_length = min_length,
            TextInput_max_length = max_length,
            TextInput_dispatch_config = dispatch_config\<rparr>)"

definition TextInput_resolve :: "TextInput \<Rightarrow> error + dict" where
  "TextInput_resolve self =
     run [assign ''action_id'' (VStr (TextInput_action_id self)),
          assign ''multiline'' (VBool (TextInput_multiline self)),
          if_truthy (TextInput_placeholder self)
            (\<lambda>placeholder. assign ''placeholder'' (VDict (Text_resolve placeholder))),
          if_truthy (when_str (TextInput_initial_value self))
            (\<lambda>initial_value. assign ''initial_value'' (VStr initial_value)),
          if_truthy (when_int (TextInput_min_length self))
            (\<lambda>min_length. assign ''min_length'' (VInt min_length)),
          if_truthy (when_int (TextInput_max_length self))
            (\<lambda>max_length. assign ''max_length'' (VInt max_length)),
          if_truthy (TextInput_dispatch_config self)
            (\<lambda>dispatch_config.
               assign ''dispatch_action_config''
                 (VDict (DispatchActionConfig_resolve dispatch_config)))]
       (Element_attributes self)"

section \<open>Selector elements\<close>

record OptionObject =
  OptionObject_text :: "Text option"
  OptionObject_value :: string
  OptionObject_description :: "Text option"
  OptionObject_url :: "string option"

definition OptionObject_init ::
  "text_input \<Rightarrow> string \<Rightarrow> text_input option \<Rightarrow> string option \<Rightarrow> error + OptionObject" where
  "OptionObject_init text val description url =
     and_then (to_text (Some text) True (Some 75)) (\<lambda>text'.
     and_then (to_text description True (Some 75)) (\<lambda>description'.
       Inr \<lparr>OptionObject_text = text', OptionObject_value = val,
            OptionObject_description = description', OptionObject_url = url\<rparr>))"

definition OptionObject_resolve :: "OptionObject \<Rightarrow> error + dict" where
  "OptionObject_resolve self =
     run [assign_from ''text'' (resolve_text_attr (OptionObject_text self)),
          assign ''value'' (VStr (OptionObject_value self)),
          if_truthy (OptionObject_description self)
            (\<lambda>description. assign ''description'' (VDict (Text_resolve description))),
          if_truthy (when_str (OptionObject_url self)) (\<lambda>url. assign ''url'' (VStr url))]
       []"

record OptionGroup =
  OptionGroup_label :: "Text option"
  OptionGroup_options :: "OptionObject list"

definition OptionGroup_init :: "text_input \<Rightarrow> OptionObject list \<Rightarrow> error + OptionGroup" where
  "OptionGroup_init label options =
     and_then (to_text (Some label) True (Some 75)) (\<lambda>label'.
       Inr \<lparr>OptionGroup_label = label', OptionGroup_options = options\<rparr>)"

definition OptionGroup_resolve :: "OptionGroup \<Rightarrow> error + dict" where
  "OptionGroup_resolve self =
     run [assign_from ''label'' (resolve_text_attr (OptionGroup_label self)),
          assign_from ''options''
            (as_list (resolve_each OptionObject_resolve (OptionGroup_options self)))]
       []"

text \<open>
  \<open>StaticSelect.__init__\<close> declares \<open>initial_option: Optional[str]\<close> and stores the
  argument as it is; \<open>StaticSelect._resolve\<close> calls \<open>_resolve()\<close> on it. Both a string
  and an option object can therefore sit in the attribute.
\<close>

datatype initial_option = InitialStr string | InitialOption OptionObject

fun when_initial_option :: "initial_option option \<Rightarrow> initial_option option" where
  "when_initial_option None = None"
| "when_initial_option (Some (InitialStr s)) = (if s \<noteq> [] then Some (InitialStr s) else None)"
| "when_initial_option (Some (InitialOption opt)) = Some (InitialOption opt)"

text \<open>\<open>self.initial_option._resolve()\<close>: a \<open>str\<close> has no \<open>_resolve\<close>.\<close>

fun resolve_initial_option :: "initial_option \<Rightarrow> error + dict" where
  "resolve_initial_option (InitialStr s) = Inl AttributeError"
| "resolve_initial_option (InitialOption opt) = OptionObject_resolve opt"

record StaticSelect = Element +
  StaticSelect_action_id :: string
  StaticSelect_options :: "OptionObject list option"
  StaticSelect_option_group :: "OptionGroup option"
  StaticSelect_placeholder :: "Text option"
  StaticSelect_initial_option :: "initial_option option"
  StaticSelect_confirm :: "Confirm option"

definition StaticSelect_init ::
  "string \<Rightarrow> text_input \<Rightarrow> OptionObject list option \<Rightarrow> OptionGroup option
     \<Rightarrow> initial_option option \<Rightarrow> Confirm option \<Rightarrow> error + StaticSelect" where
  "StaticSelect_init action_id placeholder options option_group initial_option confirm =
     (if \<not> truthy_list options \<and> \<not> truthy_obj option_group
      then Inl (InvalidUsageError ''Either options or option group should be passed'')
      else if truthy_list options \<and> truthy_obj option_group
      then Inl (InvalidUsageError ''Both options and option group cannot be passed'')
      else
        and_then (to_text (Some placeholder) True (Some 150)) (\<lambda>placeholder'.
          Inr \<lparr>Element_type = STATIC_SELECT, StaticSelect_action_id = action_id,
               StaticSelect_options = options, StaticSelect_option_group = option_group,
               StaticSelect_placeholder = placeholder',
               StaticSelect_initial_option = initial_option,
               StaticSelect_confirm = confirm\<rparr>))"

definition StaticSelect_resolve :: "StaticSelect \<Rightarrow> error + dict" where
  "StaticSelect_resolve self =
     run [assign_from ''placeholder'' (resolve_text_attr (StaticSelect_placeholder self)),
          assign ''action_id'' (VStr (StaticSelect_action_id self)),
          if_else (when_list (StaticSelect_options self))
            (\<lambda>options.
               assign_from ''options'' (as_list (resolve_each OptionObject_resolve options)))
            (if_truthy (StaticSelect_option_group self)
               (\<lambda>option_group.
                  assign_from ''option_group'' (as_dict (OptionGroup_resolve option_group)))),
          if_truthy (when_initial_option (StaticSelect_initial_option self))
            (\<lambda>initial_option.
               assign_from ''initial_option'' (as_dict (resolve_initial_option initial_option))),
          if_truthy (StaticSelect_confirm self)
            (\<lambda>confirm. assign_from ''confirm'' (as_dict (Confirm_resolve confirm)))]
       (Element_attributes self)"

record CheckboxSelector = Element +
  CheckboxSelector_action_id :: string
  CheckboxSelector_options :: "OptionObject list option"
  CheckboxSelector_initial_options :: "OptionObject list option"
  CheckboxSelector_confirm :: "Confirm option"

definition CheckboxSelector_init ::
  "string \<Rightarrow> OptionObject list option \<Rightarrow> OptionObject list option \<Rightarrow> Confirm option
     \<Rightarrow> CheckboxSelector" where
  "CheckboxSelector_init action_id options initial_options confirm =
     \<lparr>Element_type = CHECKBOXES, CheckboxSelector_action_id = action_id,
      CheckboxSelector_options = options,
      CheckboxSelector_initial_options = initial_options,
      CheckboxSelector_confirm = confirm\<rparr>"

text \<open>The last statement stores the \<open>Confirm\<close> object itself.\<close>

definition CheckboxSelector_resolve :: "CheckboxSelector \<Rightarrow> error + dict" where
  "CheckboxSelector_resolve self =
     run [assign ''action_id'' (VStr (CheckboxSelector_action_id self)),
          if_truthy (when_list (CheckboxSelector_options self))
            (\<lambda>options.
               assign_from ''options'' (as_list (resolve_each OptionObject_resolve options))),
          if_truthy (when_list (CheckboxSelector_initial_options self))
            (\<lambda>initial_options.
               assign_from ''initial_options''
                 (as_list (resolve_each OptionObject_resolve initial_options))),
          if_truthy (CheckboxSelector_confirm self)
            (\<lambda>confirm. assign ''confirm'' (VObject confirm))]
       (Element_attributes self)"

record MultiUsersSelect = Element +
  MultiUsersSelect_action_id :: string
  MultiUsersSelect_initial_users :: "string list option"
  MultiUsersSelect_placeholder :: "Text option"
  MultiUsersSelect_max_selected_items :: "int option"
  MultiUsersSelect_confirm :: "Confirm option"

definition MultiUsersSelect_init ::
  "string \<Rightarrow> text_input \<Rightarrow> string list option \<Rightarrow> int option \<Rightarrow> Confirm option
     \<Rightarrow> error + MultiUsersSelect" where
  "MultiUsersSelect_init action_id placeholder initial_users max_selected_items confirm =
     and_then (to_text (Some placeholder) True (Some 150)) (\<lambda>placeholder'.
       Inr \<lparr>Element_type = MULTI_USERS_SELECT, MultiUsersSelect_action_id = action_id,
            MultiUsersSelect_initial_users = initial_users,
            MultiUsersSelect_placeholder = placeholder',
            MultiUsersSelect_max_selected_items = max_selected_items,
            MultiUsersSelect_confirm = confirm\<rparr>)"

text \<open>
  \<open>initial_users\<close> is stored under \<open>elif\<close>: only when \<open>max_selected_items\<close> is falsy.
\<close>

definition MultiUsersSelect_resolve :: "MultiUsersSelect \<Rightarrow> error + dict" where
  "MultiUsersSelect_resolve self =
     run [assign_from ''placeholder'' (resolve_text_attr (MultiUsersSelect_placeholder self)),
          assign ''action_id'' (VStr (MultiUsersSelect_action_id self)),
          if_else (when_int (MultiUsersSelect_max_selected_items self))
            (\<lambda>max_selected_items. assign ''max_selected_items'' (VInt max_selected_items))
            (if_truthy (when_list (MultiUsersSelect_initial_users self))
               (\<lambda>initial_users. assign ''initial_users'' (VList (map VStr initial_users)))),
          if_truthy (MultiUsersSelect_confirm self)
            (\<lambda>confirm. assign ''confirm'' (VObject confirm))]
       (Element_attributes self)"

section \<open>Time elements\<close>

text \<open>
  \<open>datetime.time\<close> and \<open>datetime.datetime\<close> belong to the standard library. The code
  tests such an object for truth (always true) and calls its \<open>strftime\<close> with a fixed
  format, so the object is represented by that method.
\<close>

record time =
  time_strftime :: "string \<Rightarrow> string"

record datetime =
  datetime_strftime :: "string \<Rightarrow> string"

record TimePicker = Element +
  TimePicker_action_id :: string
  TimePicker_placeholder :: "Text option"
  TimePicker_initial_time :: "time option"
  TimePicker_confirm :: "Confirm option"

definition TimePicker_init ::
  "string \<Rightarrow> time option \<Rightarrow> text_input option \<Rightarrow> Confirm option \<Rightarrow> error + TimePicker" where
  "TimePicker_init action_id initial_time placeholder confirm =
     and_then (to_text placeholder True (Some 75)) (\<lambda>placeholder'.
       Inr \<lparr>Element_type = TIME_PICKER, TimePicker_action_id = action_id,
            TimePicker_placeholder = placeholder', TimePicker_initial_time = initial_time,
            TimePicker_confirm = confirm\<rparr>)"

definition TimePicker_resolve :: "TimePicker \<Rightarrow> error + dict" where
  "TimePicker_resolve self =
     run [assign_from ''placeholder'' (resolve_text_attr (TimePicker_placeholder self)),
          assign ''action_id'' (VStr (TimePicker_action_id self)),
          if_truthy (TimePicker_initial_time self)
            (\<lambda>initial_time.
               assign ''initial_time'' (VStr (time_strftime initial_time ''%H:%M''))),
          if_truthy (TimePicker_confirm self)
            (\<lambda>confirm. assign_from ''confirm'' (as_dict (Confirm_resolve confirm)))]
       (Element_attributes self)"

record DatePicker = Element +
  DatePicker_action_id :: string
  DatePicker_placeholder :: "Text option"
  DatePicker_initial_date :: "datetime option"
  DatePicker_confirm :: "Confirm option"

definition DatePicker_init ::
  "string \<Rightarrow> datetime option \<Rightarrow> text_input option \<Rightarrow> Confirm option \<Rightarrow> error + DatePicker" where
  "DatePicker_init action_id initial_date placeholder confirm =
     and_then (to_text placeholder True (Some 75)) (\<lambda>placeholder'.
       Inr \<lparr>Element_type = DATE_PICKER, DatePicker_action_id = action_id,
            DatePicker_placeholder = placeholder', DatePicker_initial_date = initial_date,
            DatePicker_confirm = confirm\<rparr>)"

definition DatePicker_resolve :: "DatePicker \<Rightarrow> error + dict" where
  "DatePicker_resolve self =
     run [assign ''action_id'' (VStr (DatePicker_action_id self)),
          if_truthy (DatePicker_placeholder self)
            (\<lambda>placeholder. assign ''placeholder'' (VDict (Text_resolve placeholder))),
          if_truthy (DatePicker_initial_date self)
            (\<lambda>initial_date.
               assign ''initial_date'' (VStr (datetime_strftime initial_date ''%Y-%m-%d''))),
          if_truthy (DatePicker_confirm self)
            (\<lambda>confirm. assign_from ''confirm'' (as_dict (Confirm_resolve confirm)))]
       (Element_attributes self)"

section \<open>Any element\<close>

text \<open>
  A parameter declared \<open>Element\<close> accepts an instance of any subclass; \<open>x._resolve()\<close>
  dispatches on the class and \<open>x.type\<close> reads the kind stored by \<open>Element.__init__\<close>.
\<close>

datatype element =
    Text_element Text
  | Image_element Image
  | Confirm_element Confirm
  | Button_element Button
  | TextInput_element TextInput
  | StaticSelect_element StaticSelect
  | CheckboxSelector_element CheckboxSelector
  | MultiUsersSelect_element MultiUsersSelect
  | TimePicker_element TimePicker
  | DatePicker_element DatePicker

fun element_type :: "element \<Rightarrow> ElementType" where
  "element_type (Text_element x) = Element_type x"
| "element_type (Image_element x) = Element_type x"
| "element_type (Confirm_element x) = Element_type x"
| "element_type (Button_element x) = Element_type x"
| "element_type (TextInput_element x) = Element_type x"
| "element_type (StaticSelect_element x) = Element_type x"
| "element_type (CheckboxSelector_element x) = Element_type x"
| "element_type (MultiUsersSelect_element x) = Element_type x"
| "element_type (TimePicker_element x) = Element_type x"
| "element_type (DatePicker_element x) = Element_type x"

fun element_resolve :: "element \<Rightarrow> error + dict" where
  "element_resolve (Text_element x) = Inr (Text_resolve x)"
| "element_resolve (Image_element x) = Image_resolve x"
| "element_resolve (Confirm_element x) = Confirm_resolve x"
| "element_resolve (Button_element x) = Button_resolve x"
| "element_resolve (TextInput_element x) = TextInput_resolve x"
| "element_resolve (StaticSelect_element x) = StaticSelect_resolve x"
| "element_resolve (CheckboxSelector_element x) = CheckboxSelector_resolve x"
| "element_resolve (MultiUsersSelect_element x) = MultiUsersSelect_resolve x"
| "element_resolve (TimePicker_element x) = TimePicker_resolve x"
| "element_resolve (DatePicker_element x) = DatePicker_resolve x"

section \<open>Blocks\<close>

text \<open>
  \<open>Block.__init__\<close> keeps a truthy \<open>block_id\<close> and otherwise calls \<open>str(uuid4())\<close>.
  That call is the only effect in the package. The random source is a parameter: a
  generator state \<open>'g\<close> and a function \<open>uuid4\<close> that draws a token from it. Every block
  constructor takes the state and returns it as the constructor leaves it.
\<close>

record Block =
  Block_type :: BlockType
  Block_block_id :: string

definition Block_init ::
  "('g \<Rightarrow> string \<times> 'g) \<Rightarrow> BlockType \<Rightarrow> string option \<Rightarrow> 'g \<Rightarrow> Block \<times> 'g" where
  "Block_init uuid4 ty block_id g =
     (case when_str block_id of
        Some given \<Rightarrow> (\<lparr>Block_type = ty, Block_block_id = given\<rparr>, g)
      | None \<Rightarrow> (\<lparr>Block_type = ty, Block_block_id = fst (uuid4 g)\<rparr>, snd (uuid4 g)))"

definition Block_attributes :: "'a Block_scheme \<Rightarrow> dict" where
  "Block_attributes self =
     [(''type'', VStr (BlockType_value (Block_type self))),
      (''block_id'', VStr (Block_block_id self))]"

text \<open>A list comprehension whose body may raise, left to right.\<close>

fun each :: "('a \<Rightarrow> error + 'b) \<Rightarrow> 'a list \<Rightarrow> error + 'b list" where
  "each f [] = Inr []"
| "each f (x # xs) = and_then (f x) (\<lambda>y. and_then (each f xs) (\<lambda>ys. Inr (y # ys)))"

subsection \<open>SectionBlock\<close>

record SectionBlock = Block +
  SectionBlock_text :: "Text option"
  SectionBlock_fields :: "Text option list option"
  SectionBlock_accessory :: "element option"


definition SectionBlock_resolve :: "SectionBlock \<Rightarrow> error + dict" where
  "SectionBlock_resolve self =
     run [if_truthy (SectionBlock_text self)
            (\<lambda>text. assign ''text'' (VDict (Text_resolve text))),
          if_truthy (when_list (SectionBlock_fields self))
            (\<lambda>field_list. assign_from ''fields'' (as_list (each resolve_text_attr field_list))),
          if_truthy (SectionBlock_accessory self)
            (\<lambda>accessory. assign_from ''accessory'' (as_dict (element_resolve accessory)))]
       (Block_attributes self)"

subsection \<open>DividerBlock\<close>


definition DividerBlock_resolve :: "Block \<Rightarrow> error + dict" where
  "DividerBlock_resolve self = Inr (Block_attributes self)"

subsection \<open>ImageBlock\<close>

record ImageBlock = Block +
  ImageBlock_image_url :: string
  ImageBlock_alt_text :: "string option"
  ImageBlock_title :: Text


fun of_str_option :: "string option \<Rightarrow> pyval" where
  "of_str_option None = VNone"
| "of_str_option (Some s) = VStr s"

definition ImageBlock_resolve :: "ImageBlock \<Rightarrow> error + dict" where
  "ImageBlock_resolve self =
     run [assign ''image_url'' (VStr (ImageBlock_image_url self)),
          assign ''alt_text'' (of_str_option (ImageBlock_alt_text self)),
          if_truthy (Some (ImageBlock_title self))
            (\<lambda>title. assign ''title'' (VDict (Text_resolve title)))]
       (Block_attributes self)"

subsection \<open>ActionsBlock\<close>


record ActionsBlock = Block +
  ActionsBlock_elements :: "element list option"


definition ActionsBlock_resolve :: "ActionsBlock \<Rightarrow> error + dict" where
  "ActionsBlock_resolve self =
     run [assign_from ''elements''
            (case ActionsBlock_elements self of
               None \<Rightarrow> Inl AttributeError
             | Some es \<Rightarrow> as_list (resolve_each element_resolve es))]
       (Block_attributes self)"

subsection \<open>ContextBlock\<close>

record ContextBlock = Block +
  ContextBlock_elements :: "element list"

text \<open>
  The loop of \<open>ContextBlock.__init__\<close>: \<open>acc\<close> is \<open>self.elements\<close> so far.
\<close>

fun ContextBlock_loop :: "element list \<Rightarrow> element list \<Rightarrow> error + element list" where
  "ContextBlock_loop [] acc = Inr acc"
| "ContextBlock_loop (element # rest) acc =
     (if element_type element = TEXT \<or> element_type element = IMAGE
      then ContextBlock_loop rest (acc @ [element])
      else Inl (InvalidUsageError ''Context blocks can only hold image and text elements''))"

text \<open>Iterating over the default \<open>None\<close> raises \<open>TypeError\<close>.\<close>

definition ContextBlock_init ::
  "('g \<Rightarrow> string \<times> 'g) \<Rightarrow> element list option \<Rightarrow> string option \<Rightarrow> 'g
     \<Rightarrow> (error + ContextBlock) \<times> 'g" where
  "ContextBlock_init uuid4 elements block_id g =
     (let (base, g') = Block_init uuid4 CONTEXT block_id g in
      ((case elements of
          None \<Rightarrow> Inl TypeError
        | Some es \<Rightarrow>
            and_then (ContextBlock_loop es []) (\<lambda>elements'.
              if int (length elements') > 10
              then Inl (InvalidUsageError ''Context blocks can hold a maximum of ten elements'')
              else Inr \<lparr>Block_type = Block_type base, Block_block_id = Block_block_id base,
                        ContextBlock_elements = elements'\<rparr>)), g'))"

definition ContextBlock_resolve :: "ContextBlock \<Rightarrow> error + dict" where
  "ContextBlock_resolve self =
     run [assign_from ''elements''
            (as_list (resolve_each element_resolve (ContextBlock_elements self)))]
       (Block_attributes self)"

subsection \<open>FileBlock\<close>

record FileBlock = Block +
  FileBlock_external_id :: string
  FileBlock_source :: string


definition FileBlock_resolve :: "FileBlock \<Rightarrow> error + dict" where
  "FileBlock_resolve self =
     run [assign ''external_id'' (VStr (FileBlock_external_id self)),
          assign ''source'' (VStr (FileBlock_source self))]
       (Block_attributes self)"

subsection \<open>HeaderBlock\<close>

record HeaderBlock = Block +
  HeaderBlock_text :: Text


definition HeaderBlock_resolve :: "HeaderBlock \<Rightarrow> error + dict" where
  "HeaderBlock_resolve self =
     run [assign ''text'' (VDict (Text_resolve (HeaderBlock_text self)))]
       (Block_attributes self)"

subsection \<open>InputBlock\<close>

record InputBlock = Block +
  InputBlock_label :: "Text option"
  InputBlock_element :: element
  InputBlock_dispatch_action :: bool
  InputBlock_optional :: bool
  InputBlock_hint :: "Text option"

definition InputBlock_init ::
  "('g \<Rightarrow> string \<times> 'g) \<Rightarrow> text_input \<Rightarrow> element \<Rightarrow> bool \<Rightarrow> text_input option \<Rightarrow> bool
     \<Rightarrow> string option \<Rightarrow> 'g \<Rightarrow> (error + InputBlock) \<times> 'g" where
  "InputBlock_init uuid4 label element dispatch_action hint optional block_id g =
     (let (base, g') = Block_init uuid4 INPUT block_id g in
      (and_then (to_text (Some label) True (Some 2000)) (\<lambda>label'.
       and_then (to_text hint True (Some 2000)) (\<lambda>hint'.
         Inr \<lparr>Block_type = Block_type base, Block_block_id = Block_block_id base,
              InputBlock_label = label', InputBlock_element = element,
              InputBlock_dispatch_action = dispatch_action,
              InputBlock_optional = optional, InputBlock_hint = hint'\<rparr>)), g'))"

definition InputBlock_resolve :: "InputBlock \<Rightarrow> error + dict" where
  "InputBlock_resolve self =
     run [assign_from ''label'' (resolve_text_attr (InputBlock_label self)),
          assign_from ''element'' (as_dict (element_resolve (InputBlock_element self))),
          assign ''dispatch_action'' (VBool (InputBlock_dispatch_action self)),
          assign ''optional'' (VBool (InputBlock_optional self)),
          if_truthy (InputBlock_hint self)
            (\<lambda>hint. assign ''hint'' (VDict (Text_resolve hint)))]
       (Block_attributes self)"

subsection \<open>Any block\<close>

datatype block =
    SectionBlock_block SectionBlock
  | DividerBlock_block Block
  | ImageBlock_block ImageBlock
  | ActionsBlock_block ActionsBlock
  | ContextBlock_block ContextBlock
  | FileBlock_block FileBlock
  | HeaderBlock_block HeaderBlock
  | InputBlock_block InputBlock

fun block_resolve :: "block \<Rightarrow> error + dict" where
  "block_resolve (SectionBlock_block b) = SectionBlock_resolve b"
| "block_resolve (DividerBlock_block b) = DividerBlock_resolve b"
| "block_resolve (ImageBlock_block b) = ImageBlock_resolve b"
| "block_resolve (ActionsBlock_block b) = ActionsBlock_resolve b"
| "block_resolve (ContextBlock_block b) = ContextBlock_resolve b"
| "block_resolve (FileBlock_block b) = FileBlock_resolve b"
| "block_resolve (HeaderBlock_block b) = HeaderBlock_resolve b"
| "block_resolve (InputBlock_block b) = InputBlock_resolve b"

fun block_id :: "block \<Rightarrow> string" where
  "block_id (SectionBlock_block b) = Block_block_id b"
| "block_id (DividerBlock_block b) = Block_block_id b"
| "block_id (ImageBlock_block b) = Block_block_id b"
| "block_id (ActionsBlock_block b) = Block_block_id b"
| "block_id (ContextBlock_block b) = Block_block_id b"
| "block_id (FileBlock_block b) = Block_block_id b"
| "block_id (HeaderBlock_block b) = Block_block_id b"
| "block_id (InputBlock_block b) = Block_block_id b"

fun block_type :: "block \<Rightarrow> BlockType" where
  "block_type (SectionBlock_block b) = Block_type b"
| "block_type (DividerBlock_block b) = Block_type b"
| "block_type (ImageBlock_block b) = Block_type b"
| "block_type (ActionsBlock_block b) = Block_type b"
| "block_type (ContextBlock_block b) = Block_type b"
| "block_type (FileBlock_block b) = Block_type b"
| "block_type (HeaderBlock_block b) = Block_type b"
| "block_type (InputBlock_block b) = Block_type b"

section \<open>Views\<close>

datatype SlackViewType = HOME | MODAL

fun SlackViewType_value :: "SlackViewType \<Rightarrow> string" where
  "SlackViewType_value HOME = ''home''"
| "SlackViewType_value MODAL = ''modal''"

text \<open>
  The \<open>blocks\<close> of a view are declared \<open>List[Block]\<close> by \<open>BaseSlackView\<close> and
  \<open>ModalSlackView\<close> and \<open>List[Element]\<close> by \<open>HomeSlackView\<close>, and
  \<open>ModalSlackView._resolve\<close> tests its items with \<open>isinstance(x, (int, InputBlock))\<close>.
  An item of the list is therefore a block, an element or an integer.
\<close>

datatype view_item = Block_item block | Element_item element | Int_item int

text \<open>\<open>block._resolve()\<close> on an item: an \<open>int\<close> has no \<open>_resolve\<close>.\<close>

fun view_item_resolve :: "view_item \<Rightarrow> error + dict" where
  "view_item_resolve (Block_item b) = block_resolve b"
| "view_item_resolve (Element_item e) = element_resolve e"
| "view_item_resolve (Int_item n) = Inl AttributeError"

text \<open>\<open>isinstance(x, (int, InputBlock))\<close>\<close>

fun isinstance_int_or_InputBlock :: "view_item \<Rightarrow> bool" where
  "isinstance_int_or_InputBlock (Int_item n) = True"
| "isinstance_int_or_InputBlock (Block_item (InputBlock_block b)) = True"
| "isinstance_int_or_InputBlock x = False"

text \<open>
  \<open>private_metadata\<close> is a dictionary that \<open>json.dumps\<close> turns into a string.
  \<open>dumps\<close> belongs to the standard library and is a parameter of the view functions; it
  raises on a value it cannot encode.
\<close>

record BaseSlackView =
  BaseSlackView_type :: SlackViewType
  BaseSlackView_blocks :: "view_item list"
  BaseSlackView_external_id :: "string option"
  BaseSlackView_callback_id :: "string option"
  BaseSlackView_private_metadata :: "dict option"

definition BaseSlackView_init ::
  "SlackViewType \<Rightarrow> view_item list option \<Rightarrow> dict option \<Rightarrow> string option \<Rightarrow> string option
     \<Rightarrow> BaseSlackView" where
  "BaseSlackView_init view_type blocks private_metadata callback_id external_id =
     \<lparr>BaseSlackView_type = view_type,
      BaseSlackView_blocks = (case blocks of None \<Rightarrow> [] | Some bs \<Rightarrow> bs),
      BaseSlackView_external_id = external_id,
      BaseSlackView_callback_id = callback_id,
      BaseSlackView_private_metadata = private_metadata\<rparr>"

definition BaseSlackView_attributes ::
  "(dict \<Rightarrow> error + string) \<Rightarrow> 'a BaseSlackView_scheme \<Rightarrow> error + dict" where
  "BaseSlackView_attributes dumps self =
     and_then (resolve_each view_item_resolve (BaseSlackView_blocks self)) (\<lambda>blocks.
       run [if_truthy (when_str (BaseSlackView_external_id self))
              (\<lambda>external_id. assign ''external_id'' (VStr external_id)),
            if_truthy (when_str (BaseSlackView_callback_id self))
              (\<lambda>callback_id. assign ''callback_id'' (VStr callback_id)),
            if_truthy (when_list (BaseSlackView_private_metadata self))
              (\<lambda>private_metadata.
                 assign_from ''private_metadata''
                   (and_then (dumps private_metadata) (\<lambda>s. Inr (VStr s))))]
         [(''type'', VStr (SlackViewType_value (BaseSlackView_type self))),
          (''blocks'', VList blocks)])"

subsection \<open>HomeSlackView\<close>



subsection \<open>ModalSlackView\<close>

record ModalSlackView = BaseSlackView +
  ModalSlackView_title :: "Text option"
  ModalSlackView_close :: "Text option"
  ModalSlackView_submit :: "Text option"
  ModalSlackView_clear_on_close :: "bool option"
  ModalSlackView_notify_on_close :: "bool option"

definition ModalSlackView_init ::
  "text_input \<Rightarrow> text_input option \<Rightarrow> text_input option \<Rightarrow> view_item list option
     \<Rightarrow> dict option \<Rightarrow> bool option \<Rightarrow> bool option \<Rightarrow> string option \<Rightarrow> string option
     \<Rightarrow> error + ModalSlackView" where
  "ModalSlackView_init title close submit blocks private_metadata clear_on_close
       notify_on_close callback_id external_id =
     (let base = BaseSlackView_init MODAL blocks private_metadata callback_id external_id in
      and_then (to_text (Some title) True (Some 24)) (\<lambda>title'.
      and_then (to_text close True (Some 24)) (\<lambda>close'.
      and_then (to_text submit True (Some 24)) (\<lambda>submit'.
        Inr \<lparr>BaseSlackView_type = BaseSlackView_type base,
             BaseSlackView_blocks = BaseSlackView_blocks base,
             BaseSlackView_external_id = BaseSlackView_external_id base,
             BaseSlackView_callback_id = BaseSlackView_callback_id base,
             BaseSlackView_private_metadata = BaseSlackView_private_metadata base,
             ModalSlackView_title = title', ModalSlackView_close = close',
             ModalSlackView_submit = submit',
             ModalSlackView_clear_on_close = clear_on_close,
             ModalSlackView_notify_on_close = notify_on_close\<rparr>))))"

text \<open>
  \<open>ModalSlackView._resolve\<close>. The \<open>elif\<close> after \<open>if self.submit\<close> raises when some item
  of \<open>self.blocks\<close> passes the \<open>isinstance\<close> test.
\<close>

definition ModalSlackView_resolve ::
  "(dict \<Rightarrow> error + string) \<Rightarrow> ModalSlackView \<Rightarrow> error + dict" where
  "ModalSlackView_resolve dumps self =
     and_then (BaseSlackView_attributes dumps self) (\<lambda>view.
       run [assign_from ''title'' (resolve_text_attr (ModalSlackView_title self)),
            if_else (ModalSlackView_submit self)
              (\<lambda>submit. assign ''submit'' (VDict (Text_resolve submit)))
              (if_then (list_ex isinstance_int_or_InputBlock (BaseSlackView_blocks self))
                 (raise (InvalidUsageError
                    (''You have to send Submit text if you have at least one InputBlock.'' @
                     '' Read: https://api.slack.com/reference/surfaces/views'')))),
            if_truthy (ModalSlackView_close self)
              (\<lambda>close. assign ''close'' (VDict (Text_resolve close))),
            if_truthy (when_bool (ModalSlackView_clear_on_close self))
              (\<lambda>clear_on_close. assign ''clear_on_close'' (VBool clear_on_close)),
            if_truthy (when_bool (ModalSlackView_notify_on_close self))
              (\<lambda>notify_on_close. assign ''notify_on_close'' (VBool notify_on_close))]
         view)"

section \<open>Modal responses\<close>

datatype ModalResponseAction = ERROR | CLOSE | UPDATE

fun ModalResponseAction_value :: "ModalResponseAction \<Rightarrow> string" where
  "ModalResponseAction_value ERROR = ''errors''"
| "ModalResponseAction_value CLOSE = ''clear''"
| "ModalResponseAction_value UPDATE = ''update''"

record BaseModalResponse =
  BaseModalResponse_response_action :: ModalResponseAction

definition BaseModalResponse_attributes :: "'a BaseModalResponse_scheme \<Rightarrow> dict" where
  "BaseModalResponse_attributes self =
     [(''response_action'',
       VStr (ModalResponseAction_value (BaseModalResponse_response_action self)))]"

definition EmptyModalResponse_init :: BaseModalResponse where
  "EmptyModalResponse_init = \<lparr>BaseModalResponse_response_action = ERROR\<rparr>"

definition EmptyModalResponse_resolve :: "BaseModalResponse \<Rightarrow> error + dict" where
  "EmptyModalResponse_resolve self = Inr []"

definition CloseModalResponse_init :: BaseModalResponse where
  "CloseModalResponse_init = \<lparr>BaseModalResponse_response_action = CLOSE\<rparr>"

definition CloseModalResponse_resolve :: "BaseModalResponse \<Rightarrow> error + dict" where
  "CloseModalResponse_resolve self = Inr (BaseModalResponse_attributes self)"

record ErrorModalResponse = BaseModalResponse +
  ErrorModalResponse_errors :: "(string \<times> string) list"

definition ErrorModalResponse_init :: "(string \<times> string) list \<Rightarrow> ErrorModalResponse" where
  "ErrorModalResponse_init errors =
     \<lparr>BaseModalResponse_response_action = ERROR, ErrorModalResponse_errors = errors\<rparr>"

definition ErrorModalResponse_resolve :: "ErrorModalResponse \<Rightarrow> error + dict" where
  "ErrorModalResponse_resolve self =
     run [assign ''errors''
            (VDict (map (\<lambda>(k, v). (k, VStr v)) (ErrorModalResponse_errors self)))]
       (BaseModalResponse_attributes self)"

record UpdateModalResponse = BaseModalResponse +
  UpdateModalResponse_modal :: ModalSlackView

definition UpdateModalResponse_init :: "ModalSlackView \<Rightarrow> UpdateModalResponse" where
  "UpdateModalResponse_init modal =
     \<lparr>BaseModalResponse_response_action = UPDATE, UpdateModalResponse_modal = modal\<rparr>"

definition UpdateModalResponse_resolve ::
  "(dict \<Rightarrow> error + string) \<Rightarrow> UpdateModalResponse \<Rightarrow> error + dict" where
  "UpdateModalResponse_resolve dumps self =
     run [assign_from ''view''
            (as_dict (ModalSlackView_resolve dumps (UpdateModalResponse_modal self)))]
       (BaseModalResponse_attributes self)"

datatype modal_response =
    EmptyModalResponse_response BaseModalResponse
  | CloseModalResponse_response BaseModalResponse
  | ErrorModalResponse_response ErrorModalResponse
  | UpdateModalResponse_response UpdateModalResponse

fun modal_response_resolve ::
  "(dict \<Rightarrow> error + string) \<Rightarrow> modal_response \<Rightarrow> error + dict" where
  "modal_response_resolve dumps (EmptyModalResponse_response r) = EmptyModalResponse_resolve r"
| "modal_response_resolve dumps (CloseModalResponse_response r) = CloseModalResponse_resolve r"
| "modal_response_resolve dumps (ErrorModalResponse_response r) = ErrorModalResponse_resolve r"
| "modal_response_resolve dumps (UpdateModalResponse_response r) =
     UpdateModalResponse_resolve dumps r"

section \<open>Resolution as a program over the token generator\<close>



















subsection \<open>Elements\<close>


















subsection \<open>Blocks\<close>











subsection \<open>Views\<close>





section \<open>Reading a resolved result\<close>

text \<open>Whether a call returned rather than raised, and whether the dictionary it returned has a key.\<close>

fun succeeds :: "error + 'a \<Rightarrow> bool" where
  "succeeds (Inl e) = False"
| "succeeds (Inr x) = True"

fun returns_key :: "error + dict \<Rightarrow> string \<Rightarrow> bool" where
  "returns_key (Inl e) k = False"
| "returns_key (Inr d) k = has_key d k"

section \<open>Vocabulary of the proofs\<close>

text \<open>A call that, when it raises, raises \<open>AttributeError\<close>.\<close>

fun attr_only :: "error + 'a \<Rightarrow> bool" where
  "attr_only (Inl e) = (e = AttributeError)"
| "attr_only (Inr x) = True"

text \<open>A statement that leaves the value under the key \<open>k\<close> as it found it.\<close>

definition keeps :: "string \<Rightarrow> stmt \<Rightarrow> bool" where
  "keeps k s = (\<forall>d d'. s d = Inr d' \<longrightarrow> getitem d' k = getitem d k)"


section \<open>Basic facts\<close>

lemma and_then_Inl [simp]: "and_then (Inl e) f = Inl e"
  by (simp add: and_then_def)

lemma and_then_Inr [simp]: "and_then (Inr x) f = f x"
  by (simp add: and_then_def)

subsection \<open>Text.to_text\<close>

lemma to_text_None [simp]: "to_text None fp m = Inr None"
  by (simp add: to_text_def)

lemma to_text_empty [simp]: "to_text (Some (Str [])) fp m = Inr None"
  by (simp add: to_text_def)

text \<open>A non-empty raw string under a limit other than \<open>0\<close>: the length decides.\<close>

lemma to_text_Str:
  "s \<noteq> [] \<Longrightarrow> n \<noteq> 0 \<Longrightarrow>
   to_text (Some (Str s)) fp (Some n) =
     (if int (length s) > n
      then Inl (InvalidUsageError ''Text length exceeds Slack-imposed limit'')
      else Inr (Some (Text_init s (if fp then PLAINTEXT else MARKDOWN) (Some False) (Some False))))"
  by (simp add: to_text_def exceeds_def)

lemma to_text_Str_within:
  "int (length s) \<le> n \<Longrightarrow> 0 < n \<Longrightarrow>
   to_text (Some (Str s)) fp (Some n) =
     Inr (if s = [] then None
          else Some (Text_init s (if fp then PLAINTEXT else MARKDOWN) (Some False) (Some False)))"
  by (cases "s = []") (simp_all add: to_text_Str)

text \<open>A text object under a limit other than \<open>0\<close>: \<open>len\<close> raises, whatever the content.\<close>

lemma to_text_TextObj: "n \<noteq> 0 \<Longrightarrow> to_text (Some (TextObj t)) fp (Some n) = Inl TypeError"
  by (simp add: to_text_def exceeds_def)

subsection \<open>Dictionaries\<close>

lemma keys_setitem: "set (map fst (setitem d k v)) = insert k (set (map fst d))"
proof (induction d)
  case Nil
  then show ?case by simp
next
  case (Cons p d)
  obtain k' v' where p: "p = (k', v')" by (cases p)
  show ?case
  proof (cases "k' = k")
    case True
    with p show ?thesis by simp
  next
    case False
    with p Cons.IH show ?thesis by (simp add: insert_commute)
  qed
qed

lemma has_key_setitem [simp]: "has_key (setitem d k v) k' = (k' = k \<or> has_key d k')"
  unfolding has_key_def keys_setitem by simp

lemma getitem_setitem [simp]:
  "getitem (setitem d k v) k' = (if k' = k then Some v else getitem d k')"
  by (induction d) (auto simp: getitem_def)

section \<open>What resolution can raise\<close>

text \<open>
  No \<open>_resolve\<close> of an element or a block raises anything but the \<open>AttributeError\<close> of
  a call on \<open>None\<close>, on a string or on a missing attribute.
\<close>

lemma attr_only_and_then:
  "attr_only m \<Longrightarrow> (\<And>x. attr_only (f x)) \<Longrightarrow> attr_only (and_then m f)"
  by (cases m) simp_all

lemma attr_only_run:
  "(\<And>s d. s \<in> set ss \<Longrightarrow> attr_only (s d)) \<Longrightarrow> attr_only (run ss d)"
  by (induction ss arbitrary: d) (simp_all add: attr_only_and_then)

lemma attr_only_assign [simp]: "attr_only (assign k v d)"
  by (simp add: assign_def)

lemma attr_only_assign_from [simp]: "attr_only m \<Longrightarrow> attr_only (assign_from k m d)"
  by (simp add: assign_from_def attr_only_and_then)

lemma attr_only_if_truthy [simp]: "(\<And>v. attr_only (s v d)) \<Longrightarrow> attr_only (if_truthy x s d)"
  by (simp add: if_truthy_def split: option.splits)

lemma attr_only_if_else [simp]:
  "(\<And>v. attr_only (s v d)) \<Longrightarrow> attr_only (s' d) \<Longrightarrow> attr_only (if_else x s s' d)"
  by (simp add: if_else_def split: option.splits)

lemma attr_only_resolve_text_attr [simp]: "attr_only (resolve_text_attr x)"
  by (cases x) simp_all

lemma attr_only_as_dict [simp]: "attr_only m \<Longrightarrow> attr_only (as_dict m)"
  by (simp add: as_dict_def attr_only_and_then)

lemma attr_only_as_list [simp]: "attr_only m \<Longrightarrow> attr_only (as_list m)"
  by (simp add: as_list_def attr_only_and_then)

lemma attr_only_resolve_each [simp]:
  "(\<And>x. attr_only (f x)) \<Longrightarrow> attr_only (resolve_each f xs)"
  by (induction xs) (simp_all add: attr_only_and_then)

lemma attr_only_each [simp]: "(\<And>x. attr_only (f x)) \<Longrightarrow> attr_only (each f xs)"
  by (induction xs) (simp_all add: attr_only_and_then)

lemma attr_only_OptionObject [simp]: "attr_only (OptionObject_resolve x)"
  unfolding OptionObject_resolve_def by (rule attr_only_run) auto

lemma attr_only_OptionGroup [simp]: "attr_only (OptionGroup_resolve x)"
  unfolding OptionGroup_resolve_def by (rule attr_only_run) auto

lemma attr_only_Confirm [simp]: "attr_only (Confirm_resolve x)"
  unfolding Confirm_resolve_def by (rule attr_only_run) auto

lemma attr_only_initial_option [simp]: "attr_only (resolve_initial_option x)"
  by (cases x) simp_all

lemma attr_only_StaticSelect [simp]: "attr_only (StaticSelect_resolve x)"
  unfolding StaticSelect_resolve_def by (rule attr_only_run) auto

lemma attr_only_Image [simp]: "attr_only (Image_resolve x)"
  unfolding Image_resolve_def by (rule attr_only_run) auto

lemma attr_only_Button [simp]: "attr_only (Button_resolve x)"
  unfolding Button_resolve_def by (rule attr_only_run) auto

lemma attr_only_TextInput [simp]: "attr_only (TextInput_resolve x)"
  unfolding TextInput_resolve_def by (rule attr_only_run) auto

lemma attr_only_CheckboxSelector [simp]: "attr_only (CheckboxSelector_resolve x)"
  unfolding CheckboxSelector_resolve_def by (rule attr_only_run) auto

lemma attr_only_MultiUsersSelect [simp]: "attr_only (MultiUsersSelect_resolve x)"
  unfolding MultiUsersSelect_resolve_def by (rule attr_only_run) auto

lemma attr_only_TimePicker [simp]: "attr_only (TimePicker_resolve x)"
  unfolding TimePicker_resolve_def by (rule attr_only_run) auto

lemma attr_only_DatePicker [simp]: "attr_only (DatePicker_resolve x)"
  unfolding DatePicker_resolve_def by (rule attr_only_run) auto

lemma attr_only_element [simp]: "attr_only (element_resolve e)"
  by (cases e) simp_all

lemma attr_only_SectionBlock [simp]: "attr_only (SectionBlock_resolve x)"
  unfolding SectionBlock_resolve_def by (rule attr_only_run) auto

lemma attr_only_ImageBlock [simp]: "attr_only (ImageBlock_resolve x)"
  unfolding ImageBlock_resolve_def by (rule attr_only_run) auto

lemma attr_only_ContextBlock [simp]: "attr_only (ContextBlock_resolve x)"
  unfolding ContextBlock_resolve_def by (rule attr_only_run) auto

lemma attr_only_FileBlock [simp]: "attr_only (FileBlock_resolve x)"
  unfolding FileBlock_resolve_def by (rule attr_only_run) auto

lemma attr_only_HeaderBlock [simp]: "attr_only (HeaderBlock_resolve x)"
  unfolding HeaderBlock_resolve_def by (rule attr_only_run) auto

lemma attr_only_InputBlock [simp]: "attr_only (InputBlock_resolve x)"
  unfolding InputBlock_resolve_def by (rule attr_only_run) auto

lemma attr_only_DividerBlock [simp]: "attr_only (DividerBlock_resolve x)"
  by (simp add: DividerBlock_resolve_def)

lemma attr_only_ActionsBlock [simp]: "attr_only (ActionsBlock_resolve x)"
  unfolding ActionsBlock_resolve_def by (rule attr_only_run) (auto split: option.splits)

lemma attr_only_block [simp]: "attr_only (block_resolve b)"
  by (cases b) simp_all

lemma attr_only_view_item [simp]: "attr_only (view_item_resolve x)"
  by (cases x) simp_all

text \<open>A statement that always raises makes the sequence raise.\<close>

lemma run_fails:
  "s \<in> set ss \<Longrightarrow> (\<And>d. \<not> succeeds (s d)) \<Longrightarrow> \<not> succeeds (run ss d)"
proof (induction ss arbitrary: d)
  case Nil
  then show ?case by simp
next
  case (Cons a ss)
  show ?case
  proof (cases "a d")
    case (Inl e)
    then show ?thesis by simp
  next
    case (Inr d')
    with Cons.prems have "s \<noteq> a"
      by (metis succeeds.simps(2))
    with Cons show ?thesis using Inr by simp
  qed
qed

lemma attr_only_fails: "attr_only m \<Longrightarrow> \<not> succeeds m \<Longrightarrow> m = Inl AttributeError"
  by (cases m) simp_all

section \<open>Resolution and identity tokens\<close>



lemma keeps_assign [simp]: "k' \<noteq> k \<Longrightarrow> keeps k (assign k' v)"
  by (auto simp: keeps_def assign_def)

lemma keeps_assign_from [simp]: "k' \<noteq> k \<Longrightarrow> keeps k (assign_from k' m)"
  by (cases m) (auto simp: keeps_def assign_from_def)

lemma keeps_if_truthy [simp]: "(\<And>v. keeps k (s v)) \<Longrightarrow> keeps k (if_truthy x s)"
  by (cases x) (auto simp: keeps_def if_truthy_def)











subsection \<open>Resolution leaves the generator alone\<close>






















































subsection \<open>Tokens at construction\<close>

















section \<open>Text\<close>

text \<open>
  Claim C2. \<open>Text.to_text\<close> with a \<open>max_length\<close> is to reject content longer than the
  limit with a usage error and to return a text for content of exactly the limit, for a raw
  string and for an existing text alike. For a raw string it does (\<open>to_text_Str\<close>). For an
  existing text it raises \<open>TypeError\<close>: with three characters under the limit 3, where a
  text is due, and with four, where the usage error is due.
\<close>

theorem to_text_Text_node_TypeError:
  "to_text (Some (TextObj (Text_init ''abc'' MARKDOWN (Some False) (Some False)))) False (Some 3)
     = Inl TypeError
   \<and> to_text (Some (TextObj (Text_init ''abcd'' MARKDOWN (Some False) (Some False)))) False (Some 3)
     = Inl TypeError"
  by (simp add: to_text_def exceeds_def)

subsection \<open>Text._resolve\<close>

lemma Text_resolve_no_emoji: "\<not> has_key (Text_resolve t) ''emoji''"
  by (simp add: Text_resolve_def has_key_def Let_def)

lemma Text_resolve_verbatim:
  "has_key (Text_resolve t) ''verbatim'' = (Text_text_type t = MARKDOWN)"
  by (simp add: Text_resolve_def has_key_def Let_def)

text \<open>
  Claim C6. A resolved text has the keys \<open>type\<close> and \<open>text\<close>, \<open>verbatim\<close> exactly for
  markdown, and \<open>emoji\<close> for plain text with the emoji flag set. The plain text
  \<open>Text("hi", PLAINTEXT, emoji=True)\<close> resolves without the \<open>emoji\<close> key.
\<close>

theorem Text_resolve_plain_emoji_dropped:
  "Text_resolve (Text_init ''hi'' PLAINTEXT (Some True) (Some False))
     = [(''type'', VStr ''plain_text''), (''text'', VStr ''hi'')]
   \<and> \<not> has_key (Text_resolve (Text_init ''hi'' PLAINTEXT (Some True) (Some False))) ''emoji''"
  by (simp add: Text_resolve_def Text_init_def has_key_def)

section \<open>StaticSelect.__init__\<close>

text \<open>
  Claim C3, as stated: a construction with exactly one of \<open>options\<close> and
  \<open>option_group\<close> succeeds. With options only and a placeholder of 151 characters it
  raises the usage error of the placeholder's length check.
\<close>

theorem StaticSelect_init_long_placeholder:
  "StaticSelect_init ''a'' (Str (replicate 151 (CHR ''x'')))
     (Some [\<lparr>OptionObject_text = Some (Text_init ''o'' PLAINTEXT (Some False) (Some False)),
             OptionObject_value = ''v'', OptionObject_description = None,
             OptionObject_url = None\<rparr>])
     None None None
   = Inl (InvalidUsageError ''Text length exceeds Slack-imposed limit'')"
  by (simp add: StaticSelect_init_def to_text_Str)

text \<open>
  Claim C3, amended. Neither \<open>options\<close> nor \<open>option_group\<close> (\<open>None\<close> or an empty
  list): usage error. Both: usage error. Exactly one: the check passes, and the
  construction returns the object when the placeholder, a raw string, has at most 150
  characters and raises the length usage error when it has more. Every failure is the
  constructor raising, so no object exists.
\<close>

theorem StaticSelect_init_exactly_one:
  "(\<not> truthy_list options \<and> \<not> truthy_obj option_group \<longrightarrow>
      StaticSelect_init action_id placeholder options option_group initial_option confirm
        = Inl (InvalidUsageError ''Either options or option group should be passed''))
   \<and> (truthy_list options \<and> truthy_obj option_group \<longrightarrow>
      StaticSelect_init action_id placeholder options option_group initial_option confirm
        = Inl (InvalidUsageError ''Both options and option group cannot be passed''))
   \<and> (truthy_list options \<noteq> truthy_obj option_group \<and> length s \<le> 150 \<longrightarrow>
      StaticSelect_init action_id (Str s) options option_group initial_option confirm
        = Inr \<lparr>Element_type = STATIC_SELECT, StaticSelect_action_id = action_id,
               StaticSelect_options = options, StaticSelect_option_group = option_group,
               StaticSelect_placeholder =
                 (if s = [] then None
                  else Some (Text_init s PLAINTEXT (Some False) (Some False))),
               StaticSelect_initial_option = initial_option,
               StaticSelect_confirm = confirm\<rparr>)
   \<and> (truthy_list options \<noteq> truthy_obj option_group \<and> length s > 150 \<longrightarrow>
      StaticSelect_init action_id (Str s) options option_group initial_option confirm
        = Inl (InvalidUsageError ''Text length exceeds Slack-imposed limit''))"
  by (auto simp add: StaticSelect_init_def to_text_Str_within to_text_Str)

text \<open>
  Claim C3, amended, on one option and one option group: neither, both, options only,
  group only, and options only under a placeholder of 151 characters.
\<close>

theorem StaticSelect_init_exactly_one_witness:
  "(let opt = \<lparr>OptionObject_text = Some (Text_init ''o'' PLAINTEXT (Some False) (Some False)),
               OptionObject_value = ''v'', OptionObject_description = None,
               OptionObject_url = None\<rparr>;
        grp = \<lparr>OptionGroup_label = Some (Text_init ''g'' PLAINTEXT (Some False) (Some False)),
               OptionGroup_options = [opt]\<rparr>
    in \<not> truthy_list (None :: OptionObject list option)
       \<and> \<not> truthy_obj (None :: OptionGroup option)
       \<and> StaticSelect_init ''a'' (Str ''p'') None None None None
           = Inl (InvalidUsageError ''Either options or option group should be passed'')
       \<and> truthy_list (Some [opt]) \<and> truthy_obj (Some grp)
       \<and> StaticSelect_init ''a'' (Str ''p'') (Some [opt]) (Some grp) None None
           = Inl (InvalidUsageError ''Both options and option group cannot be passed'')
       \<and> truthy_list (Some [opt]) \<noteq> truthy_obj (None :: OptionGroup option)
       \<and> length ''p'' \<le> 150
       \<and> succeeds (StaticSelect_init ''a'' (Str ''p'') (Some [opt]) None None None)
       \<and> truthy_list (None :: OptionObject list option) \<noteq> truthy_obj (Some grp)
       \<and> succeeds (StaticSelect_init ''a'' (Str ''p'') None (Some grp) None None)
       \<and> length (replicate 151 (CHR ''x'')) > 150
       \<and> StaticSelect_init ''a'' (Str (replicate 151 (CHR ''x''))) (Some [opt]) None None None
           = Inl (InvalidUsageError ''Text length exceeds Slack-imposed limit''))"
proof -
  define opt where
    "opt = \<lparr>OptionObject_text = Some (Text_init ''o'' PLAINTEXT (Some False) (Some False)),
             OptionObject_value = ''v'', OptionObject_description = None,
             OptionObject_url = None\<rparr>"
  define grp where
    "grp = \<lparr>OptionGroup_label = Some (Text_init ''g'' PLAINTEXT (Some False) (Some False)),
             OptionGroup_options = [opt]\<rparr>"
  note one = StaticSelect_init_exactly_one
  from one [where options = None and option_group = None and action_id = "''a''"
              and placeholder = "Str ''p''" and initial_option = None and confirm = None,
              THEN conjunct1]
  have neither: "StaticSelect_init ''a'' (Str ''p'') None None None None
           = Inl (InvalidUsageError ''Either options or option group should be passed'')"
    by simp
  from one [where options = "Some [opt]" and option_group = "Some grp" and action_id = "''a''"
              and placeholder = "Str ''p''" and initial_option = None and confirm = None,
              THEN conjunct2, THEN conjunct1]
  have both: "StaticSelect_init ''a'' (Str ''p'') (Some [opt]) (Some grp) None None
           = Inl (InvalidUsageError ''Both options and option group cannot be passed'')"
    by simp
  from one [where options = "Some [opt]" and option_group = None and action_id = "''a''"
              and s = "''p''" and initial_option = None and confirm = None,
              THEN conjunct2, THEN conjunct2, THEN conjunct1]
  have only_options: "succeeds (StaticSelect_init ''a'' (Str ''p'') (Some [opt]) None None None)"
    by simp
  from one [where options = None and option_group = "Some grp" and action_id = "''a''"
              and s = "''p''" and initial_option = None and confirm = None,
              THEN conjunct2, THEN conjunct2, THEN conjunct1]
  have only_group: "succeeds (StaticSelect_init ''a'' (Str ''p'') None (Some grp) None None)"
    by simp
  from one [where options = "Some [opt]" and option_group = None and action_id = "''a''"
              and s = "replicate 151 (CHR ''x'')" and initial_option = None and confirm = None,
              THEN conjunct2, THEN conjunct2, THEN conjunct2]
  have long: "StaticSelect_init ''a'' (Str (replicate 151 (CHR ''x''))) (Some [opt]) None None None
           = Inl (InvalidUsageError ''Text length exceeds Slack-imposed limit'')"
    by simp
  from neither both only_options only_group long show ?thesis
    unfolding Let_def opt_def grp_def by simp
qed

section \<open>ContextBlock.__init__\<close>

lemma ContextBlock_loop_accepts:
  "list_all (\<lambda>e. element_type e = TEXT \<or> element_type e = IMAGE) es \<Longrightarrow>
   ContextBlock_loop es acc = Inr (acc @ es)"
  by (induction es arbitrary: acc) simp_all

lemma ContextBlock_loop_rejects:
  "\<not> list_all (\<lambda>e. element_type e = TEXT \<or> element_type e = IMAGE) es \<Longrightarrow>
   ContextBlock_loop es acc =
     Inl (InvalidUsageError ''Context blocks can only hold image and text elements'')"
  by (induction es arbitrary: acc) auto

text \<open>
  Claim C4. A context block of text and image elements is constructed when it has at most
  ten of them (ten succeed) and refused with a usage error when it has more (eleven fail);
  a list with an element of any other kind is refused with a usage error whatever its
  length. The constructor returns the block only after both checks.
\<close>

theorem ContextBlock_init_validation:
  "(list_all (\<lambda>e. element_type e = TEXT \<or> element_type e = IMAGE) es \<and> length es \<le> 10 \<longrightarrow>
      fst (ContextBlock_init uuid4 (Some es) bid g)
        = Inr \<lparr>Block_type = CONTEXT,
               Block_block_id = Block_block_id (fst (Block_init uuid4 CONTEXT bid g)),
               ContextBlock_elements = es\<rparr>)
   \<and> (list_all (\<lambda>e. element_type e = TEXT \<or> element_type e = IMAGE) es \<and> length es > 10 \<longrightarrow>
      fst (ContextBlock_init uuid4 (Some es) bid g)
        = Inl (InvalidUsageError ''Context blocks can hold a maximum of ten elements''))
   \<and> (\<not> list_all (\<lambda>e. element_type e = TEXT \<or> element_type e = IMAGE) es \<longrightarrow>
      fst (ContextBlock_init uuid4 (Some es) bid g)
        = Inl (InvalidUsageError ''Context blocks can only hold image and text elements''))"
  by (simp add: ContextBlock_init_def Block_init_def ContextBlock_loop_accepts
      ContextBlock_loop_rejects split: prod.splits option.splits)

text \<open>
  Claim C4 on ten texts, on eleven images and on a single checkbox group.
\<close>

theorem ContextBlock_init_validation_witness:
  "fst (ContextBlock_init (Pair ''u'')
          (Some (replicate 10 (Text_element (Text_init ''t'' MARKDOWN (Some False) (Some False)))))
          (Some ''b'') ())
     = Inr \<lparr>Block_type = CONTEXT, Block_block_id = ''b'',
            ContextBlock_elements =
              replicate 10 (Text_element (Text_init ''t'' MARKDOWN (Some False) (Some False)))\<rparr>
   \<and> fst (ContextBlock_init (Pair ''u'')
          (Some (replicate 11 (Image_element (Image_init ''http://i'' ''alt''))))
          (Some ''b'') ())
     = Inl (InvalidUsageError ''Context blocks can hold a maximum of ten elements'')
   \<and> fst (ContextBlock_init (Pair ''u'')
          (Some [CheckboxSelector_element (CheckboxSelector_init ''a'' None None None)])
          (Some ''b'') ())
     = Inl (InvalidUsageError ''Context blocks can only hold image and text elements'')"
  using
    ContextBlock_init_validation
      [where es = "replicate 10 (Text_element (Text_init ''t'' MARKDOWN (Some False) (Some False)))"
         and ?uuid4.0 = "Pair ''u''" and bid = "Some ''b''" and g = "()"]
    ContextBlock_init_validation
      [where es = "replicate 11 (Image_element (Image_init ''http://i'' ''alt''))"
         and ?uuid4.0 = "Pair ''u''" and bid = "Some ''b''" and g = "()"]
    ContextBlock_init_validation
      [where es = "[CheckboxSelector_element (CheckboxSelector_init ''a'' None None None)]"
         and ?uuid4.0 = "Pair ''u''" and bid = "Some ''b''" and g = "()"]
  by (simp add: Block_init_def Text_init_def Image_init_def CheckboxSelector_init_def
      list_all_length)

section \<open>ModalSlackView\<close>

lemma resolve_each_fails:
  "x \<in> set xs \<Longrightarrow> \<not> succeeds (f x) \<Longrightarrow> \<not> succeeds (resolve_each f xs)"
proof (induction xs)
  case Nil
  then show ?case by simp
next
  case (Cons y ys)
  show ?case
  proof (cases "f y")
    case (Inl e)
    then show ?thesis by simp
  next
    case (Inr d)
    with Cons.prems have "x \<in> set ys" by auto
    from Cons.IH [OF this Cons.prems(2)] Inr show ?thesis
      by (cases "resolve_each f ys") simp_all
  qed
qed

lemma attributes_resolves_items:
  "BaseSlackView_attributes dumps self = Inr view \<Longrightarrow>
   \<exists>vs. resolve_each view_item_resolve (BaseSlackView_blocks self) = Inr vs"
  by (cases "resolve_each view_item_resolve (BaseSlackView_blocks self)")
     (simp_all add: BaseSlackView_attributes_def)

lemma attributes_no_int:
  "BaseSlackView_attributes dumps self = Inr view \<Longrightarrow> Int_item n \<notin> set (BaseSlackView_blocks self)"
  using attributes_resolves_items [of dumps self view]
    resolve_each_fails [of "Int_item n" "BaseSlackView_blocks self" view_item_resolve]
  by auto

lemma int_item_AttributeError:
  assumes "Int_item n \<in> set (BaseSlackView_blocks self)"
  shows "BaseSlackView_attributes dumps self = Inl AttributeError"
proof -
  have a: "attr_only (resolve_each view_item_resolve (BaseSlackView_blocks self))"
    by simp
  have "\<not> succeeds (resolve_each view_item_resolve (BaseSlackView_blocks self))"
    using resolve_each_fails [OF assms, of view_item_resolve] by simp
  with a have "resolve_each view_item_resolve (BaseSlackView_blocks self) = Inl AttributeError"
    by (rule attr_only_fails)
  then show ?thesis by (simp add: BaseSlackView_attributes_def)
qed

lemma isinstance_without_int:
  "(\<And>n. Int_item n \<notin> set xs) \<Longrightarrow>
   list_ex isinstance_int_or_InputBlock xs = (\<exists>ib. Block_item (InputBlock_block ib) \<in> set xs)"
proof (induction xs)
  case Nil
  then show ?case by simp
next
  case (Cons x xs)
  then have ih: "list_ex isinstance_int_or_InputBlock xs
                   = (\<exists>ib. Block_item (InputBlock_block ib) \<in> set xs)"
    by simp
  from Cons.prems have "\<And>n. x \<noteq> Int_item n" by auto
  then have "isinstance_int_or_InputBlock x = (\<exists>ib. x = Block_item (InputBlock_block ib))"
    by (cases x rule: isinstance_int_or_InputBlock.cases) auto
  with ih show ?case by auto
qed

lemma ModalSlackView_resolve_no_submit:
  assumes "BaseSlackView_attributes dumps self = Inr view"
    and "ModalSlackView_title self = Some t"
    and "ModalSlackView_submit self = None"
  shows "list_ex isinstance_int_or_InputBlock (BaseSlackView_blocks self) \<Longrightarrow>
         ModalSlackView_resolve dumps self =
           Inl (InvalidUsageError
             (''You have to send Submit text if you have at least one InputBlock.'' @
              '' Read: https://api.slack.com/reference/surfaces/views''))"
    and "\<not> list_ex isinstance_int_or_InputBlock (BaseSlackView_blocks self) \<Longrightarrow>
         succeeds (ModalSlackView_resolve dumps self)"
  using assms
  by (simp_all add: ModalSlackView_resolve_def assign_def assign_from_def if_else_def
      if_then_def if_truthy_def raise_def split: option.splits)

lemma ModalSlackView_resolve_submit:
  assumes "BaseSlackView_attributes dumps self = Inr view"
    and "ModalSlackView_title self = Some t"
    and "ModalSlackView_submit self = Some s"
  shows "\<exists>d. ModalSlackView_resolve dumps self = Inr d
             \<and> getitem d ''submit'' = Some (VDict (Text_resolve s))"
  using assms
  by (simp add: ModalSlackView_resolve_def assign_def assign_from_def if_else_def if_then_def
      if_truthy_def raise_def split: option.splits)

lemma ModalSlackView_usage_error_source:
  assumes "BaseSlackView_attributes dumps self = Inr view"
    and "ModalSlackView_resolve dumps self = Inl (InvalidUsageError msg)"
  shows "ModalSlackView_submit self = None
         \<and> list_ex isinstance_int_or_InputBlock (BaseSlackView_blocks self)"
  using assms
  by (cases "ModalSlackView_title self")
     (auto simp add: ModalSlackView_resolve_def assign_def assign_from_def if_else_def
        if_then_def if_truthy_def raise_def split: option.splits if_splits)

lemma attributes_error:
  "BaseSlackView_attributes dumps self = Inl e \<Longrightarrow>
   e = AttributeError \<or> (\<exists>d. dumps d = Inl e)"
proof -
  assume a: "BaseSlackView_attributes dumps self = Inl e"
  show ?thesis
  proof (cases "resolve_each view_item_resolve (BaseSlackView_blocks self)")
    case (Inl e')
    have "attr_only (resolve_each view_item_resolve (BaseSlackView_blocks self))" by simp
    with Inl have "e' = AttributeError" by simp
    with a Inl show ?thesis by (simp add: BaseSlackView_attributes_def)
  next
    case (Inr vs)
    with a show ?thesis
      by (cases "when_list (BaseSlackView_private_metadata self)")
         (auto simp add: BaseSlackView_attributes_def assign_def assign_from_def if_truthy_def
            and_then_def split: option.splits sum.splits)
  qed
qed

lemma resolve_each_succeeds:
  "succeeds (resolve_each f xs) = list_all (\<lambda>x. succeeds (f x)) xs"
proof (induction xs)
  case Nil
  then show ?case by simp
next
  case (Cons y ys)
  show ?case
  proof (cases "f y")
    case (Inl e)
    then show ?thesis by simp
  next
    case (Inr d)
    with Cons.IH show ?thesis
      by (cases "resolve_each f ys") simp_all
  qed
qed

lemma attributes_after_items:
  assumes "resolve_each view_item_resolve (BaseSlackView_blocks self) = Inr vs"
  shows "when_list (BaseSlackView_private_metadata self) = None \<Longrightarrow>
         succeeds (BaseSlackView_attributes dumps self)"
    and "when_list (BaseSlackView_private_metadata self) = Some md \<Longrightarrow> dumps md = Inr s \<Longrightarrow>
         succeeds (BaseSlackView_attributes dumps self)"
    and "when_list (BaseSlackView_private_metadata self) = Some md \<Longrightarrow> dumps md = Inl e \<Longrightarrow>
         BaseSlackView_attributes dumps self = Inl e"
  using assms
  by (simp_all add: BaseSlackView_attributes_def if_truthy_def assign_def assign_from_def
      split: option.splits)

lemma attributes_succeeds:
  "succeeds (BaseSlackView_attributes dumps self)
   = (list_all (\<lambda>x. succeeds (view_item_resolve x)) (BaseSlackView_blocks self)
      \<and> (case when_list (BaseSlackView_private_metadata self) of
            None \<Rightarrow> True
          | Some md \<Rightarrow> succeeds (dumps md)))"
proof (cases "resolve_each view_item_resolve (BaseSlackView_blocks self)")
  case (Inl e)
  then have "\<not> succeeds (resolve_each view_item_resolve (BaseSlackView_blocks self))" by simp
  then have "\<not> list_all (\<lambda>x. succeeds (view_item_resolve x)) (BaseSlackView_blocks self)"
    by (simp add: resolve_each_succeeds)
  with Inl show ?thesis by (simp add: BaseSlackView_attributes_def)
next
  case (Inr vs)
  note vs = Inr
  then have "succeeds (resolve_each view_item_resolve (BaseSlackView_blocks self))" by simp
  then have items: "list_all (\<lambda>x. succeeds (view_item_resolve x)) (BaseSlackView_blocks self)"
    by (simp add: resolve_each_succeeds)
  show ?thesis
  proof (cases "when_list (BaseSlackView_private_metadata self)")
    case None
    with attributes_after_items(1) [where dumps = dumps, OF vs] items show ?thesis by simp
  next
    case (Some md)
    show ?thesis
    proof (cases "dumps md")
      case (Inl e)
      with attributes_after_items(3) [where dumps = dumps and self = self and md = md
          and e = e, OF vs Some]
        items Some show ?thesis by simp
    next
      case (Inr s)
      with attributes_after_items(2) [where dumps = dumps and self = self and md = md
          and s = s, OF vs Some]
        items Some show ?thesis by simp
    qed
  qed
qed

lemma item_fails_AttributeError:
  assumes "x \<in> set (BaseSlackView_blocks self)" and "\<not> succeeds (view_item_resolve x)"
  shows "BaseSlackView_attributes dumps self = Inl AttributeError"
proof -
  have a: "attr_only (resolve_each view_item_resolve (BaseSlackView_blocks self))"
    by simp
  have "\<not> succeeds (resolve_each view_item_resolve (BaseSlackView_blocks self))"
    using assms resolve_each_fails [of x "BaseSlackView_blocks self" view_item_resolve]
    by simp
  with a have "resolve_each view_item_resolve (BaseSlackView_blocks self) = Inl AttributeError"
    by (rule attr_only_fails)
  then show ?thesis by (simp add: BaseSlackView_attributes_def)
qed

lemma dumps_error_propagates:
  assumes "list_all (\<lambda>x. succeeds (view_item_resolve x)) (BaseSlackView_blocks self)"
    and "when_list (BaseSlackView_private_metadata self) = Some md"
    and "dumps md = Inl e"
  shows "BaseSlackView_attributes dumps self = Inl e"
proof -
  from assms(1) have "succeeds (resolve_each view_item_resolve (BaseSlackView_blocks self))"
    by (simp add: resolve_each_succeeds)
  then obtain vs where "resolve_each view_item_resolve (BaseSlackView_blocks self) = Inr vs"
    by (cases "resolve_each view_item_resolve (BaseSlackView_blocks self)") simp_all
  from attributes_after_items(3) [where dumps = dumps and self = self and md = md and e = e,
        OF this assms(2) assms(3)]
  show ?thesis .
qed

lemma ModalSlackView_resolve_no_title:
  assumes "BaseSlackView_attributes dumps self = Inr view"
    and "ModalSlackView_title self = None"
  shows "ModalSlackView_resolve dumps self = Inl AttributeError"
  using assms by (simp add: ModalSlackView_resolve_def assign_from_def)

lemma to_text_label:
  "(case label of None \<Rightarrow> True | Some s \<Rightarrow> length s \<le> 24) \<Longrightarrow>
   to_text (map_option Str label) True (Some 24)
   = Inr (case label of
            None \<Rightarrow> None
          | Some s \<Rightarrow>
              if s = [] then None else Some (Text_init s PLAINTEXT (Some False) (Some False)))"
  by (cases label) (simp_all add: to_text_Str_within)

lemma ModalSlackView_init_labels:
  assumes "length title \<le> 24"
    and "case close of None \<Rightarrow> True | Some label \<Rightarrow> length label \<le> 24"
  shows "(case submit of None \<Rightarrow> True | Some label \<Rightarrow> length label \<le> 24) \<Longrightarrow>
         succeeds (ModalSlackView_init (Str title) (map_option Str close) (map_option Str submit)
           blocks private_metadata clear_on_close notify_on_close callback_id external_id)"
    and "length long_submit > 24 \<Longrightarrow>
         ModalSlackView_init (Str title) (map_option Str close) (Some (Str long_submit))
           blocks private_metadata clear_on_close notify_on_close callback_id external_id
         = Inl (InvalidUsageError ''Text length exceeds Slack-imposed limit'')"
proof -
  from assms(1) have title: "to_text (Some (Str title)) True (Some 24)
    = Inr (if title = [] then None
           else Some (Text_init title PLAINTEXT (Some False) (Some False)))"
    by (simp add: to_text_Str_within)
  note close = to_text_label [OF assms(2)]
  show "(case submit of None \<Rightarrow> True | Some label \<Rightarrow> length label \<le> 24) \<Longrightarrow>
         succeeds (ModalSlackView_init (Str title) (map_option Str close) (map_option Str submit)
           blocks private_metadata clear_on_close notify_on_close callback_id external_id)"
    by (simp add: ModalSlackView_init_def Let_def title close to_text_label)
  assume long: "length long_submit > 24"
  then have "long_submit \<noteq> []" by auto
  with long have "to_text (Some (Str long_submit)) True (Some 24)
    = Inl (InvalidUsageError ''Text length exceeds Slack-imposed limit'')"
    by (simp add: to_text_Str)
  then show "ModalSlackView_init (Str title) (map_option Str close) (Some (Str long_submit))
           blocks private_metadata clear_on_close notify_on_close callback_id external_id
         = Inl (InvalidUsageError ''Text length exceeds Slack-imposed limit'')"
    by (simp add: ModalSlackView_init_def Let_def title close)
qed

text \<open>
  Claim C5, as stated: a modal with an input block and no submit label fails to resolve
  with a usage error, and a submit label makes it resolve. A modal built with the empty
  title, an input block and no submit label raises \<open>AttributeError\<close> on the title; a
  modal with a submit label whose input block holds a time picker without a placeholder
  raises \<open>AttributeError\<close> in the block; and a submit label of 25 characters makes the
  constructor raise the usage error of the length check, so that nothing is resolved.
\<close>

theorem ModalSlackView_resolve_other_error:
  "and_then (TextInput_init ''a'' None None False None None None) (\<lambda>input.
   and_then (fst (InputBlock_init (Pair ''u'') (Str ''L'') (TextInput_element input) False None
                    False (Some ''b1'') ())) (\<lambda>block.
   and_then (ModalSlackView_init (Str []) None None
               (Some [Block_item (InputBlock_block block)]) None None None None None)
     (ModalSlackView_resolve (\<lambda>d. Inl TypeError))))
   = Inl AttributeError
   \<and> and_then (TimePicker_init ''t'' None None None) (\<lambda>picker.
     and_then (fst (InputBlock_init (Pair ''u'') (Str ''L'') (TimePicker_element picker) False None
                    False (Some ''b1'') ())) (\<lambda>block.
     and_then (ModalSlackView_init (Str ''T'') None (Some (Str ''Go''))
               (Some [Block_item (InputBlock_block block)]) None None None None None)
       (ModalSlackView_resolve (\<lambda>d. Inl TypeError))))
   = Inl AttributeError
   \<and> and_then (TextInput_init ''a'' None None False None None None) (\<lambda>input.
     and_then (fst (InputBlock_init (Pair ''u'') (Str ''L'') (TextInput_element input) False None
                    False (Some ''b1'') ())) (\<lambda>block.
     and_then (ModalSlackView_init (Str ''T'') None (Some (Str (replicate 25 (CHR ''x''))))
               (Some [Block_item (InputBlock_block block)]) None None None None None)
       (ModalSlackView_resolve (\<lambda>d. Inl TypeError))))
   = Inl (InvalidUsageError ''Text length exceeds Slack-imposed limit'')"
  by (simp add: TextInput_init_def TimePicker_init_def InputBlock_init_def Block_init_def
      ModalSlackView_init_def BaseSlackView_init_def to_text_Str Text_init_def
      ModalSlackView_resolve_def BaseSlackView_attributes_def InputBlock_resolve_def
      TextInput_resolve_def TimePicker_resolve_def Block_attributes_def Element_attributes_def
      Text_resolve_def assign_def assign_from_def if_else_def if_then_def if_truthy_def
      raise_def as_dict_def)

text \<open>
  Claim C5, amended. \<open>_resolve\<close> of a modal first runs \<open>_attributes\<close>, which
  returns exactly when every item resolves and \<open>json.dumps\<close> encodes a non-empty
  \<open>private_metadata\<close>. An item that fails to resolve makes \<open>_resolve\<close> raise
  \<open>AttributeError\<close>; when the items resolve and \<open>json.dumps\<close> raises,
  \<open>_resolve\<close> raises that error. When \<open>_attributes\<close> returns: without a title
  \<open>_resolve\<close> raises \<open>AttributeError\<close>; with a title, no submit label and an
  input block among the blocks it raises the usage error; with a title and a submit label
  it returns a dictionary that carries the label. Construction does not look at the
  blocks: with title, close and submit given as raw strings of at most 24 characters
  (close and submit may be absent) it succeeds, and a raw-string submit label of more than
  24 characters makes it raise the usage error of the length check. An \<open>int\<close> among
  the items makes \<open>_resolve\<close> raise \<open>AttributeError\<close>, and a usage error out of
  \<open>_resolve\<close> means that the submit label is absent and that one of the items is an
  input block: the kind of the blocks alone decides (\<open>json.dumps\<close> raises no usage
  error).
\<close>

theorem ModalSlackView_submit_required:
  "(succeeds (BaseSlackView_attributes dumps self)
      = (list_all (\<lambda>x. succeeds (view_item_resolve x)) (BaseSlackView_blocks self)
         \<and> (case when_list (BaseSlackView_private_metadata self) of
               None \<Rightarrow> True
             | Some md \<Rightarrow> succeeds (dumps md))))
   \<and> (x \<in> set (BaseSlackView_blocks self) \<and> \<not> succeeds (view_item_resolve x)
    \<longrightarrow> ModalSlackView_resolve dumps self = Inl AttributeError)
   \<and> (list_all (\<lambda>x. succeeds (view_item_resolve x)) (BaseSlackView_blocks self)
      \<and> when_list (BaseSlackView_private_metadata self) = Some metadata
      \<and> dumps metadata = Inl e
    \<longrightarrow> ModalSlackView_resolve dumps self = Inl e)
   \<and> (BaseSlackView_attributes dumps self = Inr view \<and> ModalSlackView_title self = None
    \<longrightarrow> ModalSlackView_resolve dumps self = Inl AttributeError)
   \<and> (BaseSlackView_attributes dumps self = Inr view \<and> ModalSlackView_title self = Some t
      \<and> ModalSlackView_submit self = None
      \<and> Block_item (InputBlock_block ib) \<in> set (BaseSlackView_blocks self)
    \<longrightarrow> ModalSlackView_resolve dumps self
          = Inl (InvalidUsageError
              (''You have to send Submit text if you have at least one InputBlock.'' @
               '' Read: https://api.slack.com/reference/surfaces/views'')))
   \<and> (BaseSlackView_attributes dumps self = Inr view \<and> ModalSlackView_title self = Some t
      \<and> ModalSlackView_submit self = Some s
    \<longrightarrow> (\<exists>d. ModalSlackView_resolve dumps self = Inr d
             \<and> getitem d ''submit'' = Some (VDict (Text_resolve s))))
   \<and> (length title \<le> 24
      \<and> (case close of None \<Rightarrow> True | Some label \<Rightarrow> length label \<le> 24)
      \<and> (case submit of None \<Rightarrow> True | Some label \<Rightarrow> length label \<le> 24)
    \<longrightarrow> succeeds (ModalSlackView_init (Str title) (map_option Str close) (map_option Str submit)
          blocks private_metadata clear_on_close notify_on_close callback_id external_id))
   \<and> (length title \<le> 24
      \<and> (case close of None \<Rightarrow> True | Some label \<Rightarrow> length label \<le> 24)
      \<and> length long_submit > 24
    \<longrightarrow> ModalSlackView_init (Str title) (map_option Str close) (Some (Str long_submit))
          blocks private_metadata clear_on_close notify_on_close callback_id external_id
        = Inl (InvalidUsageError ''Text length exceeds Slack-imposed limit''))
   \<and> (Int_item n \<in> set (BaseSlackView_blocks self)
    \<longrightarrow> ModalSlackView_resolve dumps self = Inl AttributeError)
   \<and> ((\<forall>d msg'. dumps d \<noteq> Inl (InvalidUsageError msg'))
      \<and> ModalSlackView_resolve dumps self = Inl (InvalidUsageError msg)
    \<longrightarrow> ModalSlackView_submit self = None
        \<and> (\<exists>ib'. Block_item (InputBlock_block ib') \<in> set (BaseSlackView_blocks self)))"
proof -
  have a1: "succeeds (BaseSlackView_attributes dumps self)
      = (list_all (\<lambda>x. succeeds (view_item_resolve x)) (BaseSlackView_blocks self)
         \<and> (case when_list (BaseSlackView_private_metadata self) of
               None \<Rightarrow> True
             | Some md \<Rightarrow> succeeds (dumps md)))"
    by (rule attributes_succeeds)
  have a2: "x \<in> set (BaseSlackView_blocks self) \<and> \<not> succeeds (view_item_resolve x)
    \<longrightarrow> ModalSlackView_resolve dumps self = Inl AttributeError"
  proof (intro impI, elim conjE)
    assume "x \<in> set (BaseSlackView_blocks self)" and "\<not> succeeds (view_item_resolve x)"
    then have "BaseSlackView_attributes dumps self = Inl AttributeError"
      by (rule item_fails_AttributeError)
    then show "ModalSlackView_resolve dumps self = Inl AttributeError"
      by (simp add: ModalSlackView_resolve_def)
  qed
  have a3: "list_all (\<lambda>x. succeeds (view_item_resolve x)) (BaseSlackView_blocks self)
      \<and> when_list (BaseSlackView_private_metadata self) = Some metadata
      \<and> dumps metadata = Inl e
    \<longrightarrow> ModalSlackView_resolve dumps self = Inl e"
  proof (intro impI, elim conjE)
    assume "list_all (\<lambda>x. succeeds (view_item_resolve x)) (BaseSlackView_blocks self)"
      and "when_list (BaseSlackView_private_metadata self) = Some metadata"
      and "dumps metadata = Inl e"
    then have "BaseSlackView_attributes dumps self = Inl e"
      by (rule dumps_error_propagates)
    then show "ModalSlackView_resolve dumps self = Inl e"
      by (simp add: ModalSlackView_resolve_def)
  qed
  have a4: "BaseSlackView_attributes dumps self = Inr view \<and> ModalSlackView_title self = None
    \<longrightarrow> ModalSlackView_resolve dumps self = Inl AttributeError"
    by (simp add: ModalSlackView_resolve_no_title)
  have c1: "BaseSlackView_attributes dumps self = Inr view \<and> ModalSlackView_title self = Some t
      \<and> ModalSlackView_submit self = None
      \<and> Block_item (InputBlock_block ib) \<in> set (BaseSlackView_blocks self)
    \<longrightarrow> ModalSlackView_resolve dumps self
          = Inl (InvalidUsageError
              (''You have to send Submit text if you have at least one InputBlock.'' @
               '' Read: https://api.slack.com/reference/surfaces/views''))"
  proof
    assume a: "BaseSlackView_attributes dumps self = Inr view \<and> ModalSlackView_title self = Some t
      \<and> ModalSlackView_submit self = None
      \<and> Block_item (InputBlock_block ib) \<in> set (BaseSlackView_blocks self)"
    then have "list_ex isinstance_int_or_InputBlock (BaseSlackView_blocks self)"
      using isinstance_without_int [of "BaseSlackView_blocks self"]
        attributes_no_int [of dumps self view] by auto
    with a ModalSlackView_resolve_no_submit(1) [of dumps self view t]
    show "ModalSlackView_resolve dumps self
          = Inl (InvalidUsageError
              (''You have to send Submit text if you have at least one InputBlock.'' @
               '' Read: https://api.slack.com/reference/surfaces/views''))"
      by simp
  qed
  have c2: "BaseSlackView_attributes dumps self = Inr view \<and> ModalSlackView_title self = Some t
      \<and> ModalSlackView_submit self = Some s
    \<longrightarrow> (\<exists>d. ModalSlackView_resolve dumps self = Inr d
             \<and> getitem d ''submit'' = Some (VDict (Text_resolve s)))"
    using ModalSlackView_resolve_submit [of dumps self view t s] by simp
  have c3: "length title \<le> 24
      \<and> (case close of None \<Rightarrow> True | Some label \<Rightarrow> length label \<le> 24)
      \<and> (case submit of None \<Rightarrow> True | Some label \<Rightarrow> length label \<le> 24)
    \<longrightarrow> succeeds (ModalSlackView_init (Str title) (map_option Str close) (map_option Str submit)
          blocks private_metadata clear_on_close notify_on_close callback_id external_id)"
    using ModalSlackView_init_labels(1) [of title close submit] by blast
  have c3': "length title \<le> 24
      \<and> (case close of None \<Rightarrow> True | Some label \<Rightarrow> length label \<le> 24)
      \<and> length long_submit > 24
    \<longrightarrow> ModalSlackView_init (Str title) (map_option Str close) (Some (Str long_submit))
          blocks private_metadata clear_on_close notify_on_close callback_id external_id
        = Inl (InvalidUsageError ''Text length exceeds Slack-imposed limit'')"
    using ModalSlackView_init_labels(2) [of title close long_submit] by blast
  have c4: "Int_item n \<in> set (BaseSlackView_blocks self)
    \<longrightarrow> ModalSlackView_resolve dumps self = Inl AttributeError"
    by (simp add: ModalSlackView_resolve_def int_item_AttributeError)
  have c5: "(\<forall>d msg'. dumps d \<noteq> Inl (InvalidUsageError msg'))
      \<and> ModalSlackView_resolve dumps self = Inl (InvalidUsageError msg)
    \<longrightarrow> ModalSlackView_submit self = None
        \<and> (\<exists>ib'. Block_item (InputBlock_block ib') \<in> set (BaseSlackView_blocks self))"
  proof
    assume a: "(\<forall>d msg'. dumps d \<noteq> Inl (InvalidUsageError msg'))
      \<and> ModalSlackView_resolve dumps self = Inl (InvalidUsageError msg)"
    have "\<exists>view. BaseSlackView_attributes dumps self = Inr view"
    proof (cases "BaseSlackView_attributes dumps self")
      case (Inl e)
      with a have "e = InvalidUsageError msg" by (simp add: ModalSlackView_resolve_def)
      with Inl a attributes_error [of dumps self e] show ?thesis by auto
    next
      case (Inr view)
      then show ?thesis by simp
    qed
    then obtain view where v: "BaseSlackView_attributes dumps self = Inr view" ..
    from ModalSlackView_usage_error_source [OF v] a
    have s: "ModalSlackView_submit self = None"
      and l: "list_ex isinstance_int_or_InputBlock (BaseSlackView_blocks self)"
      by auto
    from l isinstance_without_int [of "BaseSlackView_blocks self"] attributes_no_int [OF v]
    have "\<exists>ib'. Block_item (InputBlock_block ib') \<in> set (BaseSlackView_blocks self)"
      by auto
    with s show "ModalSlackView_submit self = None
        \<and> (\<exists>ib'. Block_item (InputBlock_block ib') \<in> set (BaseSlackView_blocks self))"
      by simp
  qed
  show ?thesis
    by (rule conjI [OF a1 conjI [OF a2 conjI [OF a3 conjI [OF a4 conjI [OF c1 conjI [OF c2
          conjI [OF c3 conjI [OF c3' conjI [OF c4 c5]]]]]]]]])
qed

text \<open>
  Claim C5, amended, on modals with one input block: titled \<open>T\<close> without a submit
  label; with the labels \<open>Cancel\<close> and \<open>Go\<close>; with metadata that
  \<open>json.dumps\<close> rejects; and with the empty title. Also a modal whose only item is a
  time picker without a placeholder, one whose only item is the integer 5, and a submit
  label of 25 characters.
\<close>

theorem ModalSlackView_submit_required_witness:
  "(let input = projr (TextInput_init ''a'' None None False None None None);
        block = projr (fst (InputBlock_init (Pair ''u'') (Str ''L'') (TextInput_element input)
                   False None False (Some ''b1'') ()));
        items = [Block_item (InputBlock_block block)];
        picker = Element_item (TimePicker_element (projr (TimePicker_init ''t'' None None None)));
        metadata = [(''k'', VInt 1)];
        modal = projr (ModalSlackView_init (Str ''T'') None None (Some items)
                   None None None None None);
        modal' = projr (ModalSlackView_init (Str ''T'') (Some (Str ''Cancel''))
                   (Some (Str ''Go'')) (Some items) None None None None None);
        modal_int = projr (ModalSlackView_init (Str ''T'') None None (Some [Int_item 5])
                   None None None None None);
        modal_picker = projr (ModalSlackView_init (Str ''T'') None (Some (Str ''Go''))
                   (Some [picker]) None None None None None);
        modal_metadata = projr (ModalSlackView_init (Str ''T'') None (Some (Str ''Go''))
                   (Some items) (Some metadata) None None None None);
        modal_untitled = projr (ModalSlackView_init (Str []) None (Some (Str ''Go''))
                   (Some items) None None None None None);
        dumps = (\<lambda>d. Inl TypeError)
    in list_all (\<lambda>x. succeeds (view_item_resolve x)) (BaseSlackView_blocks modal)
       \<and> when_list (BaseSlackView_private_metadata modal) = None
       \<and> succeeds (BaseSlackView_attributes dumps modal)
       \<and> picker \<in> set (BaseSlackView_blocks modal_picker)
       \<and> \<not> succeeds (view_item_resolve picker)
       \<and> ModalSlackView_resolve dumps modal_picker = Inl AttributeError
       \<and> list_all (\<lambda>x. succeeds (view_item_resolve x)) (BaseSlackView_blocks modal_metadata)
       \<and> when_list (BaseSlackView_private_metadata modal_metadata) = Some metadata
       \<and> dumps metadata = Inl TypeError
       \<and> ModalSlackView_resolve dumps modal_metadata = Inl TypeError
       \<and> succeeds (BaseSlackView_attributes dumps modal_untitled)
       \<and> ModalSlackView_title modal_untitled = None
       \<and> ModalSlackView_resolve dumps modal_untitled = Inl AttributeError
       \<and> ModalSlackView_title modal = Some (Text_init ''T'' PLAINTEXT (Some False) (Some False))
       \<and> ModalSlackView_submit modal = None
       \<and> Block_item (InputBlock_block block) \<in> set (BaseSlackView_blocks modal)
       \<and> ModalSlackView_resolve dumps modal
           = Inl (InvalidUsageError
               (''You have to send Submit text if you have at least one InputBlock.'' @
                '' Read: https://api.slack.com/reference/surfaces/views''))
       \<and> succeeds (BaseSlackView_attributes dumps modal')
       \<and> ModalSlackView_submit modal' = Some (Text_init ''Go'' PLAINTEXT (Some False) (Some False))
       \<and> succeeds (ModalSlackView_resolve dumps modal')
       \<and> length ''T'' \<le> 24 \<and> length ''Cancel'' \<le> 24 \<and> length ''Go'' \<le> 24
       \<and> succeeds (ModalSlackView_init (Str ''T'') (Some (Str ''Cancel'')) (Some (Str ''Go''))
                   (Some items) None None None None None)
       \<and> length (replicate 25 (CHR ''x'')) > 24
       \<and> ModalSlackView_init (Str ''T'') (Some (Str ''Cancel''))
            (Some (Str (replicate 25 (CHR ''x'')))) (Some items) None None None None None
           = Inl (InvalidUsageError ''Text length exceeds Slack-imposed limit'')
       \<and> Int_item 5 \<in> set (BaseSlackView_blocks modal_int)
       \<and> ModalSlackView_resolve dumps modal_int = Inl AttributeError
       \<and> (\<forall>d msg'. dumps d \<noteq> Inl (InvalidUsageError msg'))
       \<and> (\<exists>ib'. Block_item (InputBlock_block ib') \<in> set (BaseSlackView_blocks modal)))"
proof -
  define input where "input = projr (TextInput_init ''a'' None None False None None None)"
  define block where "block = projr (fst (InputBlock_init (Pair ''u'') (Str ''L'')
                   (TextInput_element input) False None False (Some ''b1'') ()))"
  define items where "items = [Block_item (InputBlock_block block)]"
  define picker where
    "picker = Element_item (TimePicker_element (projr (TimePicker_init ''t'' None None None)))"
  define metadata :: dict where "metadata = [(''k'', VInt 1)]"
  define modal where "modal = projr (ModalSlackView_init (Str ''T'') None None (Some items)
                   None None None None None)"
  define modal' where "modal' = projr (ModalSlackView_init (Str ''T'') (Some (Str ''Cancel''))
                   (Some (Str ''Go'')) (Some items) None None None None None)"
  define modal_int where "modal_int = projr (ModalSlackView_init (Str ''T'') None None
                   (Some [Int_item 5]) None None None None None)"
  define modal_picker where "modal_picker = projr (ModalSlackView_init (Str ''T'') None
                   (Some (Str ''Go'')) (Some [picker]) None None None None None)"
  define modal_metadata where "modal_metadata = projr (ModalSlackView_init (Str ''T'') None
                   (Some (Str ''Go'')) (Some items) (Some metadata) None None None None)"
  define modal_untitled where "modal_untitled = projr (ModalSlackView_init (Str []) None
                   (Some (Str ''Go'')) (Some items) None None None None None)"
  define dumps :: "dict \<Rightarrow> error + string" where "dumps = (\<lambda>d. Inl TypeError)"
  note init_defs = ModalSlackView_init_def BaseSlackView_init_def to_text_Str
  have block_ok: "succeeds (block_resolve (InputBlock_block block))"
    by (simp add: block_def input_def TextInput_init_def InputBlock_init_def Block_init_def
        to_text_Str InputBlock_resolve_def TextInput_resolve_def Block_attributes_def
        Element_attributes_def assign_def assign_from_def if_truthy_def as_dict_def)
  then obtain d where d: "block_resolve (InputBlock_block block) = Inr d"
    by (cases "block_resolve (InputBlock_block block)") simp_all
  have picker_fails: "\<not> succeeds (view_item_resolve picker)"
    by (simp add: picker_def TimePicker_init_def TimePicker_resolve_def assign_from_def)
  have items_ok: "list_all (\<lambda>x. succeeds (view_item_resolve x)) items"
    using block_ok by (simp add: items_def)
  have m: "BaseSlackView_blocks modal = items" "ModalSlackView_submit modal = None"
    "ModalSlackView_title modal = Some (Text_init ''T'' PLAINTEXT (Some False) (Some False))"
    "BaseSlackView_external_id modal = None" "BaseSlackView_callback_id modal = None"
    "BaseSlackView_private_metadata modal = None" "BaseSlackView_type modal = MODAL"
    by (simp_all add: modal_def init_defs)
  have m': "BaseSlackView_blocks modal' = items"
    "ModalSlackView_submit modal' = Some (Text_init ''Go'' PLAINTEXT (Some False) (Some False))"
    "ModalSlackView_title modal' = Some (Text_init ''T'' PLAINTEXT (Some False) (Some False))"
    "BaseSlackView_external_id modal' = None" "BaseSlackView_callback_id modal' = None"
    "BaseSlackView_private_metadata modal' = None" "BaseSlackView_type modal' = MODAL"
    by (simp_all add: modal'_def init_defs)
  have mi: "BaseSlackView_blocks modal_int = [Int_item 5]"
    by (simp add: modal_int_def init_defs)
  have mp: "BaseSlackView_blocks modal_picker = [picker]"
    by (simp add: modal_picker_def init_defs)
  have mm: "BaseSlackView_blocks modal_metadata = items"
    "BaseSlackView_private_metadata modal_metadata = Some metadata"
    by (simp_all add: modal_metadata_def init_defs)
  have mu: "BaseSlackView_blocks modal_untitled = items"
    "ModalSlackView_title modal_untitled = None"
    "BaseSlackView_external_id modal_untitled = None"
    "BaseSlackView_callback_id modal_untitled = None"
    "BaseSlackView_private_metadata modal_untitled = None"
    "BaseSlackView_type modal_untitled = MODAL"
    by (simp_all add: modal_untitled_def init_defs)
  have attrs: "BaseSlackView_attributes dumps modal
                 = Inr [(''type'', VStr ''modal''), (''blocks'', VList [VDict d])]"
    by (simp add: BaseSlackView_attributes_def m items_def d [simplified] if_truthy_def)
  have attrs': "BaseSlackView_attributes dumps modal'
                 = Inr [(''type'', VStr ''modal''), (''blocks'', VList [VDict d])]"
    by (simp add: BaseSlackView_attributes_def m' items_def d [simplified] if_truthy_def)
  have attrs_u: "BaseSlackView_attributes dumps modal_untitled
                 = Inr [(''type'', VStr ''modal''), (''blocks'', VList [VDict d])]"
    by (simp add: BaseSlackView_attributes_def mu items_def d [simplified] if_truthy_def)
  have md: "when_list (BaseSlackView_private_metadata modal_metadata) = Some metadata"
    by (simp add: mm metadata_def)
  have rejects: "dumps metadata = Inl TypeError"
    by (simp add: dumps_def)
  note req = ModalSlackView_submit_required
  from req [where dumps = dumps and self = modal, THEN conjunct1] items_ok m
  have r0: "succeeds (BaseSlackView_attributes dumps modal)"
    by simp
  from req [where dumps = dumps and self = modal_picker and x = picker,
              THEN conjunct2, THEN conjunct1]
    mp picker_fails
  have r_picker: "ModalSlackView_resolve dumps modal_picker = Inl AttributeError"
    by simp
  from req [where dumps = dumps and self = modal_metadata and metadata = metadata
             and e = TypeError, THEN conjunct2, THEN conjunct2, THEN conjunct1]
    items_ok mm(1) md rejects
  have r_metadata: "ModalSlackView_resolve dumps modal_metadata = Inl TypeError"
    by simp
  from req [where dumps = dumps and self = modal_untitled
             and view = "[(''type'', VStr ''modal''), (''blocks'', VList [VDict d])]",
           THEN conjunct2, THEN conjunct2, THEN conjunct2, THEN conjunct1]
    attrs_u mu(2)
  have r_untitled: "ModalSlackView_resolve dumps modal_untitled = Inl AttributeError"
    by simp
  from req [where dumps = dumps and self = modal and ib = block
              and view = "[(''type'', VStr ''modal''), (''blocks'', VList [VDict d])]"
              and t = "Text_init ''T'' PLAINTEXT (Some False) (Some False)",
              THEN conjunct2, THEN conjunct2, THEN conjunct2, THEN conjunct2, THEN conjunct1]
    attrs m
  have r1: "ModalSlackView_resolve dumps modal
           = Inl (InvalidUsageError
               (''You have to send Submit text if you have at least one InputBlock.'' @
                '' Read: https://api.slack.com/reference/surfaces/views''))"
    by (simp add: items_def)
  from req [where dumps = dumps and self = modal'
              and view = "[(''type'', VStr ''modal''), (''blocks'', VList [VDict d])]"
              and t = "Text_init ''T'' PLAINTEXT (Some False) (Some False)"
              and s = "Text_init ''Go'' PLAINTEXT (Some False) (Some False)",
              THEN conjunct2, THEN conjunct2, THEN conjunct2, THEN conjunct2,
              THEN conjunct2, THEN conjunct1]
    attrs' m'
  have r2: "succeeds (ModalSlackView_resolve dumps modal')"
    by auto
  from req [where title = "''T''" and close = "Some ''Cancel''" and submit = "Some ''Go''"
              and blocks = "Some items" and private_metadata = None and clear_on_close = None
              and notify_on_close = None and callback_id = None and external_id = None,
            THEN conjunct2, THEN conjunct2, THEN conjunct2, THEN conjunct2,
              THEN conjunct2, THEN conjunct2, THEN conjunct1]
  have r3: "succeeds (ModalSlackView_init (Str ''T'') (Some (Str ''Cancel'')) (Some (Str ''Go''))
                   (Some items) None None None None None)"
    by simp
  from req [where title = "''T''" and close = "Some ''Cancel''"
              and long_submit = "replicate 25 (CHR ''x'')"
              and blocks = "Some items" and private_metadata = None and clear_on_close = None
              and notify_on_close = None and callback_id = None and external_id = None,
            THEN conjunct2, THEN conjunct2, THEN conjunct2, THEN conjunct2,
              THEN conjunct2, THEN conjunct2, THEN conjunct2, THEN conjunct1]
  have r3': "ModalSlackView_init (Str ''T'') (Some (Str ''Cancel''))
            (Some (Str (replicate 25 (CHR ''x'')))) (Some items) None None None None None
           = Inl (InvalidUsageError ''Text length exceeds Slack-imposed limit'')"
    by simp
  from req [where dumps = dumps and self = modal_int and n = 5,
              THEN conjunct2, THEN conjunct2, THEN conjunct2, THEN conjunct2,
              THEN conjunct2, THEN conjunct2, THEN conjunct2, THEN conjunct2, THEN conjunct1] mi
  have r4: "ModalSlackView_resolve dumps modal_int = Inl AttributeError"
    by simp
  have no_usage: "\<forall>d msg'. dumps d \<noteq> Inl (InvalidUsageError msg')"
    by (simp add: dumps_def)
  from req [where dumps = dumps and self = modal
              and msg = "''You have to send Submit text if you have at least one InputBlock.'' @
                         '' Read: https://api.slack.com/reference/surfaces/views''",
              THEN conjunct2, THEN conjunct2, THEN conjunct2, THEN conjunct2,
              THEN conjunct2, THEN conjunct2, THEN conjunct2, THEN conjunct2,
              THEN conjunct2] no_usage r1
  have r5: "\<exists>ib'. Block_item (InputBlock_block ib') \<in> set (BaseSlackView_blocks modal)"
    by blast
  from items_ok m mi mp mm mu md rejects picker_fails attrs' attrs_u r0 r_picker r_metadata
    r_untitled r1 r2 r3 r3' r4 r5 no_usage m'(2)
  have "list_all (\<lambda>x. succeeds (view_item_resolve x)) (BaseSlackView_blocks modal)
       \<and> when_list (BaseSlackView_private_metadata modal) = None
       \<and> succeeds (BaseSlackView_attributes dumps modal)
       \<and> picker \<in> set (BaseSlackView_blocks modal_picker)
       \<and> \<not> succeeds (view_item_resolve picker)
       \<and> ModalSlackView_resolve dumps modal_picker = Inl AttributeError
       \<and> list_all (\<lambda>x. succeeds (view_item_resolve x)) (BaseSlackView_blocks modal_metadata)
       \<and> when_list (BaseSlackView_private_metadata modal_metadata) = Some metadata
       \<and> dumps metadata = Inl TypeError
       \<and> ModalSlackView_resolve dumps modal_metadata = Inl TypeError
       \<and> succeeds (BaseSlackView_attributes dumps modal_untitled)
       \<and> ModalSlackView_title modal_untitled = None
       \<and> ModalSlackView_resolve dumps modal_untitled = Inl AttributeError
       \<and> ModalSlackView_title modal = Some (Text_init ''T'' PLAINTEXT (Some False) (Some False))
       \<and> ModalSlackView_submit modal = None
       \<and> Block_item (InputBlock_block block) \<in> set (BaseSlackView_blocks modal)
       \<and> ModalSlackView_resolve dumps modal
           = Inl (InvalidUsageError
               (''You have to send Submit text if you have at least one InputBlock.'' @
                '' Read: https://api.slack.com/reference/surfaces/views''))
       \<and> succeeds (BaseSlackView_attributes dumps modal')
       \<and> ModalSlackView_submit modal' = Some (Text_init ''Go'' PLAINTEXT (Some False) (Some False))
       \<and> succeeds (ModalSlackView_resolve dumps modal')
       \<and> length ''T'' \<le> 24 \<and> length ''Cancel'' \<le> 24 \<and> length ''Go'' \<le> 24
       \<and> succeeds (ModalSlackView_init (Str ''T'') (Some (Str ''Cancel'')) (Some (Str ''Go''))
                   (Some items) None None None None None)
       \<and> length (replicate 25 (CHR ''x'')) > 24
       \<and> ModalSlackView_init (Str ''T'') (Some (Str ''Cancel''))
            (Some (Str (replicate 25 (CHR ''x'')))) (Some items) None None None None None
           = Inl (InvalidUsageError ''Text length exceeds Slack-imposed limit'')
       \<and> Int_item 5 \<in> set (BaseSlackView_blocks modal_int)
       \<and> ModalSlackView_resolve dumps modal_int = Inl AttributeError
       \<and> (\<forall>d msg'. dumps d \<noteq> Inl (InvalidUsageError msg'))
       \<and> (\<exists>ib'. Block_item (InputBlock_block ib') \<in> set (BaseSlackView_blocks modal))"
    by (simp add: items_def)
  then show ?thesis
    unfolding Let_def input_def block_def items_def picker_def metadata_def modal_def
      modal'_def modal_int_def modal_picker_def modal_metadata_def modal_untitled_def dumps_def
    by simp
qed

section \<open>Placeholders\<close>

text \<open>
  Claim C7. The placeholder of a select, a date picker, a time picker and a text input is
  coerced with the limit 150. A placeholder of 76 characters is refused by
  \<open>TimePicker\<close> and \<open>DatePicker\<close>, which pass the limit 75, and accepted by
  \<open>TextInput\<close>, which passes 150.
\<close>

theorem picker_placeholder_limit_75:
  "TimePicker_init ''a'' None (Some (Str (replicate 76 (CHR ''x'')))) None
     = Inl (InvalidUsageError ''Text length exceeds Slack-imposed limit'')
   \<and> DatePicker_init ''a'' None (Some (Str (replicate 76 (CHR ''x'')))) None
     = Inl (InvalidUsageError ''Text length exceeds Slack-imposed limit'')
   \<and> TextInput_init ''a'' (Some (Str (replicate 76 (CHR ''x'')))) None False None None None
     = Inr \<lparr>Element_type = PLAIN_TEXT_INPUT, TextInput_action_id = ''a'',
            TextInput_placeholder =
              Some (Text_init (replicate 76 (CHR ''x'')) PLAINTEXT (Some False) (Some False)),
            TextInput_initial_value = None, TextInput_multiline = False,
            TextInput_min_length = None, TextInput_max_length = None,
            TextInput_dispatch_config = None\<rparr>"
  by (simp add: TimePicker_init_def DatePicker_init_def TextInput_init_def to_text_Str)

section \<open>MultiUsersSelect\<close>

text \<open>
  Claim C8. A resolved element starts with its type tag and has each optional field exactly
  when the field was supplied; a \<open>MultiUsersSelect\<close> with both \<open>max_selected_items\<close>
  and \<open>initial_users\<close> emits both. Constructed with \<open>initial_users=["U1"]\<close> and
  \<open>max_selected_items=2\<close>, it resolves without \<open>initial_users\<close>.
\<close>

theorem MultiUsersSelect_drops_initial_users:
  "and_then (MultiUsersSelect_init ''a'' (Str ''p'') (Some [''U1'']) (Some 2) None)
     MultiUsersSelect_resolve
   = Inr [(''type'', VStr ''multi_users_select''),
          (''placeholder'', VDict [(''type'', VStr ''plain_text''), (''text'', VStr ''p'')]),
          (''action_id'', VStr ''a''),
          (''max_selected_items'', VInt 2)]
   \<and> \<not> returns_key
         (and_then (MultiUsersSelect_init ''a'' (Str ''p'') (Some [''U1'']) (Some 2) None)
            MultiUsersSelect_resolve)
         ''initial_users''"
  by (simp add: MultiUsersSelect_init_def MultiUsersSelect_resolve_def to_text_Str
      Text_init_def Text_resolve_def Element_attributes_def assign_def assign_from_def
      if_else_def if_truthy_def has_key_def)

section \<open>Modal responses\<close>

text \<open>
  Claim C9, as stated: every modal response resolves to a dictionary with the key
  \<open>response_action\<close>. \<open>EmptyModalResponse\<close> resolves to the empty dictionary.
\<close>

theorem EmptyModalResponse_no_response_action:
  "EmptyModalResponse_resolve EmptyModalResponse_init = Inr []
   \<and> \<not> returns_key (EmptyModalResponse_resolve EmptyModalResponse_init) ''response_action''"
  by (simp add: EmptyModalResponse_resolve_def has_key_def)

text \<open>
  Claim C9, amended. \<open>CloseModalResponse\<close> resolves to \<open>response_action\<close> alone,
  \<open>ErrorModalResponse\<close> to \<open>response_action\<close> and the \<open>errors\<close> mapping,
  \<open>UpdateModalResponse\<close> to \<open>response_action\<close> and the resolved modal under \<open>view\<close>
  (or to the error the modal's resolution raises), and \<open>EmptyModalResponse\<close> to the empty
  dictionary, without \<open>response_action\<close>.
\<close>

theorem modal_response_resolve_variants:
  "modal_response_resolve dumps (CloseModalResponse_response CloseModalResponse_init)
     = Inr [(''response_action'', VStr ''clear'')]
   \<and> modal_response_resolve dumps
       (ErrorModalResponse_response (ErrorModalResponse_init errors))
     = Inr [(''response_action'', VStr ''errors''),
            (''errors'', VDict (map (\<lambda>(k, v). (k, VStr v)) errors))]
   \<and> modal_response_resolve dumps
       (UpdateModalResponse_response (UpdateModalResponse_init modal))
     = (case ModalSlackView_resolve dumps modal of
          Inl e \<Rightarrow> Inl e
        | Inr view \<Rightarrow> Inr [(''response_action'', VStr ''update''), (''view'', VDict view)])
   \<and> modal_response_resolve dumps (EmptyModalResponse_response EmptyModalResponse_init)
     = Inr []"
  by (simp add: CloseModalResponse_resolve_def CloseModalResponse_init_def
      ErrorModalResponse_resolve_def ErrorModalResponse_init_def
      UpdateModalResponse_resolve_def UpdateModalResponse_init_def
      EmptyModalResponse_resolve_def BaseModalResponse_attributes_def
      assign_def assign_from_def as_dict_def split: sum.splits)

section \<open>StaticSelect._resolve and initial_option\<close>

lemma StaticSelect_init_stores:
  "StaticSelect_init action_id placeholder options option_group initial_option confirm = Inr self
   \<Longrightarrow> StaticSelect_initial_option self = initial_option"
  by (cases "to_text (Some placeholder) True (Some 150)")
     (auto simp: StaticSelect_init_def split: if_splits)

lemma StaticSelect_resolve_needs_initial_option:
  assumes "succeeds (StaticSelect_resolve self)"
  shows "when_initial_option (StaticSelect_initial_option self) = None
         \<or> (\<exists>opt. StaticSelect_initial_option self = Some (InitialOption opt)
                  \<and> succeeds (OptionObject_resolve opt))"
proof (rule ccontr)
  assume neg: "\<not> ?thesis"
  let ?s = "if_truthy (when_initial_option (StaticSelect_initial_option self))
              (\<lambda>initial_option.
                 assign_from ''initial_option'' (as_dict (resolve_initial_option initial_option)))"
  have "\<not> succeeds (?s d)" for d
  proof (cases "StaticSelect_initial_option self")
    case None
    with neg show ?thesis by simp
  next
    case (Some io)
    show ?thesis
    proof (cases io)
      case (InitialStr s)
      with Some neg show ?thesis
        by (simp add: if_truthy_def assign_from_def as_dict_def split: if_splits)
    next
      case (InitialOption opt)
      with Some neg have "\<not> succeeds (OptionObject_resolve opt)" by simp
      then obtain e where "OptionObject_resolve opt = Inl e"
        by (cases "OptionObject_resolve opt") simp_all
      with Some InitialOption show ?thesis
        by (simp add: if_truthy_def assign_from_def as_dict_def)
    qed
  qed
  then have "\<not> succeeds (StaticSelect_resolve self)"
    unfolding StaticSelect_resolve_def by (intro run_fails [where s = ?s]) simp_all
  with assms show False by simp
qed

text \<open>
  Claim C10, as stated: a select constructed with a plain-string \<open>initial_option\<close> never
  resolves. With the empty string, which \<open>if self.initial_option\<close> skips like \<open>None\<close>,
  it resolves.
\<close>

theorem StaticSelect_empty_str_initial_option_resolves:
  "and_then
     (StaticSelect_init ''a'' (Str ''p'')
        (Some [\<lparr>OptionObject_text = Some (Text_init ''o'' PLAINTEXT (Some False) (Some False)),
                OptionObject_value = ''v'', OptionObject_description = None,
                OptionObject_url = None\<rparr>])
        None (Some (InitialStr [])) None)
     StaticSelect_resolve
   = Inr [(''type'', VStr ''static_select''),
          (''placeholder'', VDict [(''type'', VStr ''plain_text''), (''text'', VStr ''p'')]),
          (''action_id'', VStr ''a''),
          (''options'',
           VList [VDict [(''text'', VDict [(''type'', VStr ''plain_text''), (''text'', VStr ''o'')]),
                         (''value'', VStr ''v'')]])]"
  by (simp add: StaticSelect_init_def StaticSelect_resolve_def OptionObject_resolve_def
      to_text_Str Text_init_def Text_resolve_def Element_attributes_def assign_def
      assign_from_def if_else_def if_truthy_def as_list_def as_dict_def)

text \<open>
  Claim C10, amended. A select constructed with a non-empty plain-string
  \<open>initial_option\<close> does not resolve: \<open>_resolve\<close> raises \<open>AttributeError\<close>. When
  \<open>_resolve\<close> returns, \<open>initial_option\<close> is \<open>None\<close>, the empty string, or an option
  object that resolves.
\<close>

theorem StaticSelect_str_initial_option_fails:
  "(StaticSelect_init action_id placeholder options option_group (Some (InitialStr s)) confirm
      = Inr self \<and> s \<noteq> []
    \<longrightarrow> StaticSelect_resolve self = Inl AttributeError)
   \<and> (succeeds (StaticSelect_resolve self') \<longrightarrow>
        StaticSelect_initial_option self' = None
        \<or> StaticSelect_initial_option self' = Some (InitialStr [])
        \<or> (\<exists>opt. StaticSelect_initial_option self' = Some (InitialOption opt)
                 \<and> succeeds (OptionObject_resolve opt)))"
proof (intro conjI impI)
  assume a: "StaticSelect_init action_id placeholder options option_group
               (Some (InitialStr s)) confirm = Inr self \<and> s \<noteq> []"
  then have "StaticSelect_initial_option self = Some (InitialStr s)"
    by (auto dest: StaticSelect_init_stores)
  with a have "\<not> succeeds (StaticSelect_resolve self)"
    using StaticSelect_resolve_needs_initial_option [of self] by auto
  then show "StaticSelect_resolve self = Inl AttributeError"
    by (simp add: attr_only_fails)
next
  assume "succeeds (StaticSelect_resolve self')"
  from StaticSelect_resolve_needs_initial_option [OF this]
  show "StaticSelect_initial_option self' = None
        \<or> StaticSelect_initial_option self' = Some (InitialStr [])
        \<or> (\<exists>opt. StaticSelect_initial_option self' = Some (InitialOption opt)
                 \<and> succeeds (OptionObject_resolve opt))"
  proof
    assume w: "when_initial_option (StaticSelect_initial_option self') = None"
    show ?thesis
    proof (cases "StaticSelect_initial_option self'")
      case None
      then show ?thesis by simp
    next
      case (Some io)
      with w show ?thesis by (cases io) (simp_all split: if_splits)
    qed
  next
    assume "\<exists>opt. StaticSelect_initial_option self' = Some (InitialOption opt)
                 \<and> succeeds (OptionObject_resolve opt)"
    then show ?thesis by simp
  qed
qed

text \<open>
  Claim C10, amended, on a select with one option: with the string \<open>x\<close> as
  \<open>initial_option\<close>, and with the option itself.
\<close>

theorem StaticSelect_str_initial_option_fails_witness:
  "StaticSelect_init ''a'' (Str ''p'')
     (Some [\<lparr>OptionObject_text = Some (Text_init ''o'' PLAINTEXT (Some False) (Some False)),
             OptionObject_value = ''v'', OptionObject_description = None,
             OptionObject_url = None\<rparr>])
     None (Some (InitialStr ''x'')) None
   = Inr \<lparr>Element_type = STATIC_SELECT, StaticSelect_action_id = ''a'',
          StaticSelect_options =
            Some [\<lparr>OptionObject_text = Some (Text_init ''o'' PLAINTEXT (Some False) (Some False)),
                   OptionObject_value = ''v'', OptionObject_description = None,
                   OptionObject_url = None\<rparr>],
          StaticSelect_option_group = None,
          StaticSelect_placeholder = Some (Text_init ''p'' PLAINTEXT (Some False) (Some False)),
          StaticSelect_initial_option = Some (InitialStr ''x''),
          StaticSelect_confirm = None\<rparr>
   \<and> ''x'' \<noteq> []
   \<and> StaticSelect_resolve
       \<lparr>Element_type = STATIC_SELECT, StaticSelect_action_id = ''a'',
          StaticSelect_options =
            Some [\<lparr>OptionObject_text = Some (Text_init ''o'' PLAINTEXT (Some False) (Some False)),
                   OptionObject_value = ''v'', OptionObject_description = None,
                   OptionObject_url = None\<rparr>],
          StaticSelect_option_group = None,
          StaticSelect_placeholder = Some (Text_init ''p'' PLAINTEXT (Some False) (Some False)),
          StaticSelect_initial_option = Some (InitialStr ''x''),
          StaticSelect_confirm = None\<rparr>
     = Inl AttributeError
   \<and> succeeds (StaticSelect_resolve
       \<lparr>Element_type = STATIC_SELECT, StaticSelect_action_id = ''a'',
          StaticSelect_options =
            Some [\<lparr>OptionObject_text = Some (Text_init ''o'' PLAINTEXT (Some False) (Some False)),
                   OptionObject_value = ''v'', OptionObject_description = None,
                   OptionObject_url = None\<rparr>],
          StaticSelect_option_group = None,
          StaticSelect_placeholder = Some (Text_init ''p'' PLAINTEXT (Some False) (Some False)),
          StaticSelect_initial_option =
            Some (InitialOption
              \<lparr>OptionObject_text = Some (Text_init ''o'' PLAINTEXT (Some False) (Some False)),
               OptionObject_value = ''v'', OptionObject_description = None,
               OptionObject_url = None\<rparr>),
          StaticSelect_confirm = None\<rparr>)
   \<and> succeeds (OptionObject_resolve
       \<lparr>OptionObject_text = Some (Text_init ''o'' PLAINTEXT (Some False) (Some False)),
        OptionObject_value = ''v'', OptionObject_description = None,
        OptionObject_url = None\<rparr>)"
proof -
  let ?opt = "\<lparr>OptionObject_text = Some (Text_init ''o'' PLAINTEXT (Some False) (Some False)),
               OptionObject_value = ''v'', OptionObject_description = None,
               OptionObject_url = None\<rparr>"
  let ?sel = "\<lambda>io. \<lparr>Element_type = STATIC_SELECT, StaticSelect_action_id = ''a'',
          StaticSelect_options = Some [?opt],
          StaticSelect_option_group = None,
          StaticSelect_placeholder = Some (Text_init ''p'' PLAINTEXT (Some False) (Some False)),
          StaticSelect_initial_option = io,
          StaticSelect_confirm = None\<rparr>"
  have init: "StaticSelect_init ''a'' (Str ''p'') (Some [?opt]) None (Some (InitialStr ''x'')) None
                = Inr (?sel (Some (InitialStr ''x'')))"
    by (simp add: StaticSelect_init_def to_text_Str)
  have opt: "succeeds (OptionObject_resolve ?opt)"
    by (simp add: OptionObject_resolve_def assign_def assign_from_def if_truthy_def)
  have ok: "succeeds (StaticSelect_resolve (?sel (Some (InitialOption ?opt))))"
    by (simp add: StaticSelect_resolve_def OptionObject_resolve_def assign_def assign_from_def
        if_else_def if_truthy_def as_list_def as_dict_def)
  from StaticSelect_str_initial_option_fails
         [where action_id = "''a''" and placeholder = "Str ''p''" and options = "Some [?opt]"
            and option_group = None and s = "''x''" and confirm = None
            and self = "?sel (Some (InitialStr ''x''))"
            and self' = "?sel (Some (InitialOption ?opt))"]
       init
  have "StaticSelect_resolve (?sel (Some (InitialStr ''x''))) = Inl AttributeError"
    by simp
  with init opt ok show ?thesis by simp
qed

end
